theory Spec2Isabelle
  imports Complex_Main
begin

section \<open>Python values, errors and dictionaries\<close>

text \<open>
  The program is a Python script.  Its numbers (Python ints and floats, mixed freely) are
  modelled as mathematical reals, the type the specification gives its data model; the
  rounding of binary floating point is outside this model.  The limited range of a float is
  modelled where the script's functions are specified for every finite input, in
  \<open>calculate_npv\<close>: there a power that leaves the range raises, a power that underflows is
  zero, and a quotient or a sum that leaves the range is an infinity.  A raised exception is
  a value \<open>Inl e\<close> of the result type, a returned value is \<open>Inr v\<close>.
\<close>

datatype py_error = KeyError string | ZeroDivisionError | OverflowError

datatype py_val = PyInt int | PyStr string

text \<open>A dict keeps its keys in insertion order: an association list with distinct keys.\<close>

type_synonym 'v dict = "(string \<times> 'v) list"

definition dict_getitem :: "'v dict \<Rightarrow> string \<Rightarrow> py_error + 'v" where
  "dict_getitem d k = (case map_of d k of None \<Rightarrow> Inl (KeyError k) | Some v \<Rightarrow> Inr v)"

definition dict_get :: "'v dict \<Rightarrow> string \<Rightarrow> 'v \<Rightarrow> 'v" where
  "dict_get d k dflt = (case map_of d k of None \<Rightarrow> dflt | Some v \<Rightarrow> v)"

fun dict_setitem :: "'v dict \<Rightarrow> string \<Rightarrow> 'v \<Rightarrow> 'v dict" where
  "dict_setitem [] k v = [(k, v)]"
| "dict_setitem ((k', v') # d) k v =
     (if k' = k then (k', v) # d else (k', v') # dict_setitem d k v)"

definition dict_keys :: "'v dict \<Rightarrow> string list" where
  "dict_keys d = map fst d"

text \<open>
  The range of a Python float (IEEE binary64, round to nearest): a real of magnitude
  \<open>2 ^ 1024 - 2 ^ 970\<close> or more rounds to an infinity, a real of magnitude \<open>2 ^ -1075\<close> or less
  rounds to zero.
\<close>

definition FLOAT_OVERFLOW :: real where
  "FLOAT_OVERFLOW = 2 ^ 1024 - 2 ^ 970"

definition FLOAT_UNDERFLOW :: real where
  "FLOAT_UNDERFLOW = 1 / 2 ^ 1075"

text \<open>A float that an operation returns: a finite number, an infinity, or not a number.\<close>

datatype py_float = Fin real | PosInf | NegInf | NaN

text \<open>
  The float returned by \<open>+\<close> or \<open>/\<close> when the exact result is \<open>x\<close>: these two operations
  never raise on overflow, they return an infinity.
\<close>

definition float_result :: "real \<Rightarrow> py_float" where
  "float_result x =
     (if FLOAT_OVERFLOW \<le> x then PosInf
      else if x \<le> - FLOAT_OVERFLOW then NegInf
      else Fin x)"

fun py_add :: "py_float \<Rightarrow> py_float \<Rightarrow> py_float" where
  "py_add (Fin a) (Fin b) = float_result (a + b)"
| "py_add NaN y = NaN"
| "py_add x NaN = NaN"
| "py_add PosInf NegInf = NaN"
| "py_add NegInf PosInf = NaN"
| "py_add PosInf y = PosInf"
| "py_add x PosInf = PosInf"
| "py_add NegInf y = NegInf"
| "py_add x NegInf = NegInf"

text \<open>\<open>a / b\<close> on finite floats raises when the divisor is zero.\<close>

definition py_truediv :: "real \<Rightarrow> real \<Rightarrow> py_error + py_float" where
  "py_truediv a b = (if b = 0 then Inl ZeroDivisionError else Inr (float_result (a / b)))"

text \<open>
  \<open>b ** i\<close> for a finite float \<open>b\<close> and an int \<open>i \<ge> 0\<close>: unlike \<open>+\<close> and \<open>/\<close>, the power
  raises \<open>OverflowError\<close> when the result leaves the range; a result that underflows is
  \<open>0.0\<close>, silently.  \<open>b ** 0\<close> is 1 for every \<open>b\<close>, also for 0.
\<close>

definition py_pow :: "real \<Rightarrow> nat \<Rightarrow> py_error + real" where
  "py_pow b i =
     (if FLOAT_OVERFLOW \<le> \<bar>b ^ i\<bar> then Inl OverflowError
      else if \<bar>b ^ i\<bar> \<le> FLOAT_UNDERFLOW then Inr 0
      else Inr (b ^ i))"

text \<open>A power that \<open>py_pow\<close> returns as it is: neither overflowing nor rounded to zero.\<close>

definition power_in_range :: "real \<Rightarrow> nat \<Rightarrow> bool" where
  "power_in_range b i \<longleftrightarrow> FLOAT_UNDERFLOW < \<bar>b ^ i\<bar> \<and> \<bar>b ^ i\<bar> < FLOAT_OVERFLOW"

text \<open>\<open>str(n)\<close> for a natural number, as an f-string renders it.\<close>

definition digit_char :: "nat \<Rightarrow> char" where
  "digit_char d = char_of (48 + d)"

fun str_nat :: "nat \<Rightarrow> string" where
  "str_nat n = (if n < 10 then [digit_char n] else str_nat (n div 10) @ [digit_char (n mod 10)])"

declare str_nat.simps [simp del]

section \<open>Constants\<close>

definition EMISSION_FACTORS :: "real dict" where
  "EMISSION_FACTORS =
     [(''VLSFO'', 3.114), (''MGO'', 3.206), (''LNG'', 2.750), (''Methanol'', 1.375),
      (''Ammonia'', 0.000)]"

definition FUEL_PRICES :: "real dict" where
  "FUEL_PRICES =
     [(''VLSFO'', 600), (''MGO'', 700), (''LNG'', 800), (''Methanol'', 900),
      (''Ammonia'', 1000)]"

definition DISCOUNT_RATE :: real where
  "DISCOUNT_RATE = 0.07"

definition YEARS :: nat where
  "YEARS = 10"

definition EFFICIENCY_DEGRADATION_RATE :: real where
  "EFFICIENCY_DEGRADATION_RATE = 0.01"

definition DRYDOCK_CYCLE :: int where
  "DRYDOCK_CYCLE = 5"

section \<open>The model functions\<close>

record Vessel =
  dwt :: real
  fuel_type :: string
  annual_fuel_consumption :: real

definition calculate_emissions :: "string \<Rightarrow> real \<Rightarrow> py_error + real" where
  "calculate_emissions ft fuel_consumed =
     (case dict_getitem EMISSION_FACTORS ft of
        Inl err \<Rightarrow> Inl err
      | Inr factor \<Rightarrow> Inr (fuel_consumed * factor))"

definition calculate_carbon_tax :: "real \<Rightarrow> real \<Rightarrow> real" where
  "calculate_carbon_tax emissions tax_rate = emissions * tax_rate"

definition apply_tech_efficiency_reduction :: "real \<Rightarrow> real \<Rightarrow> real" where
  "apply_tech_efficiency_reduction base_fuel efficiency_gain = base_fuel * (1 - efficiency_gain)"

text \<open>
  \<open>year % DRYDOCK_CYCLE\<close> is Python's floor modulo, which is \<open>mod\<close> on \<open>int\<close>; with the
  positive divisor 5 it is never negative, so the exponent is a natural number.
\<close>

definition get_degradation_multiplier :: "int \<Rightarrow> real" where
  "get_degradation_multiplier year =
     (1 + EFFICIENCY_DEGRADATION_RATE) ^ nat (year mod DRYDOCK_CYCLE)"

text \<open>
  \<open>sum(cf / ((1 + discount_rate) ** i) for i, cf in enumerate(cash_flows))\<close>: the loop
  carries the index and the running sum, which starts at 0, and stops at the first power or
  division that raises.  The cash flows and the discount rate are finite floats.
\<close>

fun npv_loop :: "real \<Rightarrow> nat \<Rightarrow> py_float \<Rightarrow> real list \<Rightarrow> py_error + py_float" where
  "npv_loop discount_rate i acc [] = Inr acc"
| "npv_loop discount_rate i acc (cf # cfs) =
     (case py_pow (1 + discount_rate) i of
        Inl err \<Rightarrow> Inl err
      | Inr p \<Rightarrow>
          (case py_truediv cf p of
             Inl err \<Rightarrow> Inl err
           | Inr term \<Rightarrow> npv_loop discount_rate (Suc i) (py_add acc term) cfs))"

definition calculate_npv :: "real list \<Rightarrow> real \<Rightarrow> py_error + py_float" where
  "calculate_npv cash_flows discount_rate = npv_loop discount_rate 0 (Fin 0) cash_flows"

fun payback_loop :: "nat \<Rightarrow> real \<Rightarrow> real list \<Rightarrow> py_val" where
  "payback_loop i cumulative [] = PyStr (''> '' @ str_nat YEARS)"
| "payback_loop i cumulative (cf # cfs) =
     (let cumulative' = cumulative + cf
      in if cumulative' \<ge> 0 then PyInt (int i + 1) else payback_loop (Suc i) cumulative' cfs)"

definition calculate_payback_period :: "real list \<Rightarrow> py_val" where
  "calculate_payback_period cash_flows = payback_loop 0 0 cash_flows"

section \<open>The script: scenario generation and summary\<close>

text \<open>A \<open>for\<close> loop whose body may raise: the first exception ends the loop.\<close>

fun for_each :: "('a \<Rightarrow> 's \<Rightarrow> py_error + 's) \<Rightarrow> 'a list \<Rightarrow> 's \<Rightarrow> py_error + 's" where
  "for_each body [] s = Inr s"
| "for_each body (x # xs) s =
     (case body x s of Inl err \<Rightarrow> Inl err | Inr s' \<Rightarrow> for_each body xs s')"

definition py_range :: "nat \<Rightarrow> int list" where
  "py_range n = map int [0..<n]"

text \<open>The three lists a year loop appends to: \<open>emissions\<close>, \<open>costs\<close>, \<open>cash_flows\<close>.\<close>

type_synonym series = "real list \<times> real list \<times> real list"

definition baseline_body :: "Vessel \<Rightarrow> real \<Rightarrow> real \<Rightarrow> int \<Rightarrow> series \<Rightarrow> py_error + series" where
  "baseline_body vessel tax_rate opex year s =
     (case s of (emissions, costs, cash_flows) \<Rightarrow>
        let mult = get_degradation_multiplier year;
            fuel = annual_fuel_consumption vessel * mult
        in (case calculate_emissions (fuel_type vessel) fuel of
              Inl err \<Rightarrow> Inl err
            | Inr e \<Rightarrow>
                (let t = calculate_carbon_tax e tax_rate
                 in (case dict_getitem FUEL_PRICES (fuel_type vessel) of
                       Inl err \<Rightarrow> Inl err
                     | Inr price \<Rightarrow>
                         (let fc = fuel * price;
                              total = fc + t + opex
                          in Inr (emissions @ [e], costs @ [total], cash_flows @ [- total]))))))"

definition tech_body ::
  "Vessel \<Rightarrow> real \<Rightarrow> real \<Rightarrow> real \<Rightarrow> real \<Rightarrow> int \<Rightarrow> series \<Rightarrow> py_error + series" where
  "tech_body vessel tax_rate opex capex efficiency_gain year s =
     (case s of (emissions, costs, cash_flows) \<Rightarrow>
        let mult = get_degradation_multiplier year;
            fuel = apply_tech_efficiency_reduction
                     (annual_fuel_consumption vessel * mult) efficiency_gain
        in (case calculate_emissions (fuel_type vessel) fuel of
              Inl err \<Rightarrow> Inl err
            | Inr e \<Rightarrow>
                (let t = calculate_carbon_tax e tax_rate
                 in (case dict_getitem FUEL_PRICES (fuel_type vessel) of
                       Inl err \<Rightarrow> Inl err
                     | Inr price \<Rightarrow>
                         (let fc = fuel * price;
                              total = fc + t + opex + (if year = 0 then capex else 0)
                          in Inr (emissions @ [e], costs @ [total], cash_flows @ [- total]))))))"

definition switch_body ::
  "Vessel \<Rightarrow> real \<Rightarrow> real \<Rightarrow> real \<Rightarrow> string \<Rightarrow> int \<Rightarrow> series \<Rightarrow> py_error + series" where
  "switch_body vessel tax_rate opex capex alt_fuel year s =
     (case s of (emissions, costs, cash_flows) \<Rightarrow>
        let mult = get_degradation_multiplier year;
            fuel = annual_fuel_consumption vessel * mult
        in (case calculate_emissions alt_fuel fuel of
              Inl err \<Rightarrow> Inl err
            | Inr e \<Rightarrow>
                (let t = calculate_carbon_tax e tax_rate
                 in (case dict_getitem FUEL_PRICES alt_fuel of
                       Inl err \<Rightarrow> Inl err
                     | Inr price \<Rightarrow>
                         (let fc = fuel * price;
                              total = fc + t + opex + (if year = 0 then capex else 0)
                          in Inr (emissions @ [e], costs @ [total], cash_flows @ [- total]))))))"

definition baseline_series :: "Vessel \<Rightarrow> real \<Rightarrow> real \<Rightarrow> py_error + series" where
  "baseline_series vessel tax_rate opex =
     for_each (baseline_body vessel tax_rate opex) (py_range YEARS) ([], [], [])"

definition tech_series :: "Vessel \<Rightarrow> real \<Rightarrow> real \<Rightarrow> real \<Rightarrow> real \<Rightarrow> py_error + series" where
  "tech_series vessel tax_rate opex capex efficiency_gain =
     for_each (tech_body vessel tax_rate opex capex efficiency_gain) (py_range YEARS) ([], [], [])"

definition switch_series :: "Vessel \<Rightarrow> real \<Rightarrow> real \<Rightarrow> real \<Rightarrow> string \<Rightarrow> py_error + series" where
  "switch_series vessel tax_rate opex capex alt_fuel =
     for_each (switch_body vessel tax_rate opex capex alt_fuel) (py_range YEARS) ([], [], [])"

text \<open>The three dicts the script fills: \<open>scenarios\<close>, \<open>npv_summary\<close>, \<open>payback_summary\<close>.\<close>

record run_state =
  scenarios :: "real list dict dict"
  npv_summary :: "py_float dict"
  payback_summary :: "py_val dict"

definition initial_state :: run_state where
  "initial_state = \<lparr>scenarios = [], npv_summary = [], payback_summary = []\<rparr>"

definition baseline_scenario :: "Vessel \<Rightarrow> real \<Rightarrow> real \<Rightarrow> run_state \<Rightarrow> py_error + run_state" where
  "baseline_scenario vessel tax_rate opex st =
     (case baseline_series vessel tax_rate opex of
        Inl err \<Rightarrow> Inl err
      | Inr (emissions, costs, cash_flows) \<Rightarrow>
          let st1 = st\<lparr>scenarios := dict_setitem (scenarios st) ''Baseline''
                                       [(''emissions'', emissions), (''costs'', costs)]\<rparr>
          in (case calculate_npv cash_flows DISCOUNT_RATE of
                Inl err \<Rightarrow> Inl err
              | Inr v \<Rightarrow>
                  Inr (st1\<lparr>npv_summary := dict_setitem (npv_summary st1) ''Baseline'' v\<rparr>)))"

definition tech_scenario ::
  "Vessel \<Rightarrow> real \<Rightarrow> real \<Rightarrow> real \<Rightarrow> real \<Rightarrow> run_state \<Rightarrow> py_error + run_state" where
  "tech_scenario vessel tax_rate opex capex efficiency_gain st =
     (case tech_series vessel tax_rate opex capex efficiency_gain of
        Inl err \<Rightarrow> Inl err
      | Inr (emissions, costs, cash_flows) \<Rightarrow>
          let st1 = st\<lparr>scenarios := dict_setitem (scenarios st) ''Tech Upgrade''
                                       [(''emissions'', emissions), (''costs'', costs)]\<rparr>
          in (case calculate_npv cash_flows DISCOUNT_RATE of
                Inl err \<Rightarrow> Inl err
              | Inr v \<Rightarrow>
                  (let st2 = st1\<lparr>npv_summary := dict_setitem (npv_summary st1) ''Tech Upgrade'' v\<rparr>
                   in Inr (st2\<lparr>payback_summary :=
                                  dict_setitem (payback_summary st2) ''Tech Upgrade''
                                    (calculate_payback_period cash_flows)\<rparr>))))"

definition switch_scenario ::
  "Vessel \<Rightarrow> real \<Rightarrow> real \<Rightarrow> real \<Rightarrow> string \<Rightarrow> run_state \<Rightarrow> py_error + run_state" where
  "switch_scenario vessel tax_rate opex capex alt_fuel st =
     (if alt_fuel = fuel_type vessel then Inr st
      else case switch_series vessel tax_rate opex capex alt_fuel of
        Inl err \<Rightarrow> Inl err
      | Inr (emissions, costs, cash_flows) \<Rightarrow>
          let label = ''Switch to '' @ alt_fuel;
              st1 = st\<lparr>scenarios := dict_setitem (scenarios st) label
                                       [(''emissions'', emissions), (''costs'', costs)]\<rparr>
          in (case calculate_npv cash_flows DISCOUNT_RATE of
                Inl err \<Rightarrow> Inl err
              | Inr v \<Rightarrow>
                  (let st2 = st1\<lparr>npv_summary := dict_setitem (npv_summary st1) label v\<rparr>
                   in Inr (st2\<lparr>payback_summary :=
                                  dict_setitem (payback_summary st2) label
                                    (calculate_payback_period cash_flows)\<rparr>))))"

text \<open>
  The script from the construction of the vessel to the end of the alternative-fuel loop.
  The sidebar supplies the vessel's fields and the four scalars.
\<close>

definition run :: "Vessel \<Rightarrow> real \<Rightarrow> real \<Rightarrow> real \<Rightarrow> real \<Rightarrow> py_error + run_state" where
  "run vessel tax_rate opex capex efficiency_gain =
     (case baseline_scenario vessel tax_rate opex initial_state of
        Inl err \<Rightarrow> Inl err
      | Inr st1 \<Rightarrow>
          (case tech_scenario vessel tax_rate opex capex efficiency_gain st1 of
             Inl err \<Rightarrow> Inl err
           | Inr st2 \<Rightarrow>
               for_each (switch_scenario vessel tax_rate opex capex)
                 (dict_keys EMISSION_FACTORS) st2))"

text \<open>
  The summary table handed to \<open>st.table\<close>, one column per key.  The NPV column holds the
  number that the script then formats with \<open>:,.0f\<close>; the formatting itself is not modelled.
\<close>

record summary_table =
  scenario_column :: "string list"
  npv_column :: "py_float list"
  payback_column :: "py_val list"

definition make_table :: "run_state \<Rightarrow> py_error + summary_table" where
  "make_table st =
     (case for_each (\<lambda>k col. case dict_getitem (npv_summary st) k of
                                 Inl err \<Rightarrow> Inl err | Inr v \<Rightarrow> Inr (col @ [v]))
             (dict_keys (npv_summary st)) [] of
        Inl err \<Rightarrow> Inl err
      | Inr col \<Rightarrow>
          Inr \<lparr>scenario_column = dict_keys (npv_summary st),
               npv_column = col,
               payback_column =
                 map (\<lambda>k. dict_get (payback_summary st) k (PyStr ''-''))
                   (dict_keys (npv_summary st))\<rparr>)"

text \<open>The script from its inputs to the table it shows.\<close>

definition script_summary ::
  "Vessel \<Rightarrow> real \<Rightarrow> real \<Rightarrow> real \<Rightarrow> real \<Rightarrow> py_error + summary_table" where
  "script_summary vessel tax_rate opex capex efficiency_gain =
     (case run vessel tax_rate opex capex efficiency_gain of
        Inl err \<Rightarrow> Inl err
      | Inr st \<Rightarrow> make_table st)"

text \<open>
  Two predicates for stating what the run leaves in its dicts: a scenario entry holds an
  emissions and a costs list of horizon length, under these two keys; a payback entry is a year
  count within the horizon or the string \<open>> 10\<close>.
\<close>

definition scenario_ok :: "real list dict \<Rightarrow> bool" where
  "scenario_ok data \<longleftrightarrow>
     dict_keys data = [''emissions'', ''costs''] \<and> list_all (\<lambda>xs. length xs = YEARS) (map snd data)"

definition payback_ok :: "py_val \<Rightarrow> bool" where
  "payback_ok p = (case p of PyInt n \<Rightarrow> 1 \<le> n \<and> n \<le> int YEARS | PyStr s \<Rightarrow> s = ''> 10'')"

section \<open>Payback period\<close>

lemma str_nat_YEARS: "str_nat YEARS = ''10''"
  by code_simp

lemma payback_loop_sentinel:
  "\<forall>k<length cfs. cum + sum_list (take (Suc k) cfs) < 0 \<Longrightarrow>
   payback_loop i cum cfs = PyStr ''> 10''"
proof (induction cfs arbitrary: i cum)
  case Nil
  show ?case by (simp add: str_nat_YEARS)
next
  case (Cons cf cfs)
  from Cons.prems have neg: "cum + cf < 0" by fastforce
  have "\<forall>k<length cfs. (cum + cf) + sum_list (take (Suc k) cfs) < 0"
  proof (intro allI impI)
    fix k assume "k < length cfs"
    with Cons.prems have "cum + sum_list (take (Suc (Suc k)) (cf # cfs)) < 0" by fastforce
    then show "(cum + cf) + sum_list (take (Suc k) cfs) < 0" by (simp add: add.assoc)
  qed
  from Cons.IH [OF this] neg show ?case by (simp add: Let_def)
qed

lemma payback_loop_first:
  "k < length cfs \<Longrightarrow> 0 \<le> cum + sum_list (take (Suc k) cfs) \<Longrightarrow>
   \<forall>j<k. cum + sum_list (take (Suc j) cfs) < 0 \<Longrightarrow>
   payback_loop i cum cfs = PyInt (int i + int k + 1)"
proof (induction cfs arbitrary: i cum k)
  case Nil
  then show ?case by simp
next
  case (Cons cf cfs)
  show ?case
  proof (cases k)
    case 0
    with Cons.prems show ?thesis by (simp add: Let_def)
  next
    case (Suc k')
    with Cons.prems have neg: "cum + cf < 0" by fastforce
    have a: "k' < length cfs" using Cons.prems Suc by simp
    have b: "0 \<le> (cum + cf) + sum_list (take (Suc k') cfs)"
      using Cons.prems Suc by (simp add: add.assoc)
    have c: "\<forall>j<k'. (cum + cf) + sum_list (take (Suc j) cfs) < 0"
    proof (intro allI impI)
      fix j assume "j < k'"
      then have "Suc j < k" using Suc by simp
      with Cons.prems have "cum + sum_list (take (Suc (Suc j)) (cf # cfs)) < 0" by blast
      then show "(cum + cf) + sum_list (take (Suc j) cfs) < 0" by (simp add: add.assoc)
    qed
    from Cons.IH [OF a b c, of "Suc i"] neg Suc show ?thesis by (simp add: Let_def)
  qed
qed

lemma sum_list_neg:
  fixes xs :: "real list"
  shows "xs \<noteq> [] \<Longrightarrow> \<forall>x\<in>set xs. x < 0 \<Longrightarrow> sum_list xs < 0"
proof (induction xs)
  case Nil
  then show ?case by simp
next
  case (Cons x xs)
  show ?case
  proof (cases "xs = []")
    case True
    with Cons.prems show ?thesis by simp
  next
    case False
    with Cons have "sum_list xs < 0" by simp
    moreover from Cons.prems have "x < 0" by simp
    ultimately show ?thesis by simp
  qed
qed

text \<open>
  Claim C1.  \<open>calculate_payback_period\<close> keeps a running sum that starts at 0 and returns
  \<open>k + 1\<close> for the first index \<open>k\<close> whose prefix sum (the flows at indices \<open>0 \<dots> k\<close>) is
  not negative.  When every such prefix sum is negative it returns the string \<open>> 10\<close>, which
  is not a number; in particular it does so when every flow is negative.
\<close>

theorem payback_period_first_nonneg_prefix:
  "(k < length cfs \<and> 0 \<le> sum_list (take (Suc k) cfs) \<and>
      (\<forall>j<k. sum_list (take (Suc j) cfs) < 0)
      \<longrightarrow> calculate_payback_period cfs = PyInt (int k + 1))
   \<and> ((\<forall>k<length cfs. sum_list (take (Suc k) cfs) < 0)
      \<longrightarrow> calculate_payback_period cfs = PyStr ''> 10'')
   \<and> ((\<forall>x\<in>set cfs. x < 0) \<longrightarrow> calculate_payback_period cfs = PyStr ''> 10'')"
proof (intro conjI impI)
  assume "k < length cfs \<and> 0 \<le> sum_list (take (Suc k) cfs) \<and>
      (\<forall>j<k. sum_list (take (Suc j) cfs) < 0)"
  then show "calculate_payback_period cfs = PyInt (int k + 1)"
    using payback_loop_first [of k cfs 0 0] by (simp add: calculate_payback_period_def)
next
  assume "\<forall>k<length cfs. sum_list (take (Suc k) cfs) < 0"
  then show "calculate_payback_period cfs = PyStr ''> 10''"
    using payback_loop_sentinel [of cfs 0 0] by (simp add: calculate_payback_period_def)
next
  assume neg: "\<forall>x\<in>set cfs. x < 0"
  have "\<forall>k<length cfs. 0 + sum_list (take (Suc k) cfs) < 0"
  proof (intro allI impI)
    fix k assume "k < length cfs"
    then have "take (Suc k) cfs \<noteq> []" by (cases cfs) auto
    moreover have "\<forall>x\<in>set (take (Suc k) cfs). x < 0"
      using neg by (meson in_set_takeD)
    ultimately show "0 + sum_list (take (Suc k) cfs) < 0"
      using sum_list_neg by simp
  qed
  then show "calculate_payback_period cfs = PyStr ''> 10''"
    using payback_loop_sentinel [of cfs 0 0] by (simp add: calculate_payback_period_def)
qed

theorem payback_period_first_nonneg_prefix_witness:
  "calculate_payback_period [- 5, 2, 4, - 9] = PyInt 3
   \<and> calculate_payback_period [- 5, 2, 1] = PyStr ''> 10''
   \<and> calculate_payback_period [- 1, - 2] = PyStr ''> 10''"
proof -
  have h1: "(2::nat) < length [- 5, 2, 4, - 9 :: real] \<and>
            0 \<le> sum_list (take (Suc 2) [- 5, 2, 4, - 9 :: real]) \<and>
            (\<forall>j<2. sum_list (take (Suc j) [- 5, 2, 4, - 9 :: real]) < 0)"
    by (simp add: less_Suc_eq numeral_2_eq_2)
  have h2: "\<forall>k<length [- 5, 2, 1 :: real]. sum_list (take (Suc k) [- 5, 2, 1 :: real]) < 0"
    by (simp add: less_Suc_eq numeral_3_eq_3)
  have h3: "\<forall>x\<in>set [- 1, - 2 :: real]. x < 0" by simp
  from payback_period_first_nonneg_prefix [of 2 "[- 5, 2, 4, - 9]"] h1
  have "calculate_payback_period [- 5, 2, 4, - 9] = PyInt 3" by simp
  moreover from payback_period_first_nonneg_prefix [of 0 "[- 5, 2, 1]"] h2
  have "calculate_payback_period [- 5, 2, 1] = PyStr ''> 10''" by blast
  moreover from payback_period_first_nonneg_prefix [of 0 "[- 1, - 2]"] h3
  have "calculate_payback_period [- 1, - 2] = PyStr ''> 10''" by blast
  ultimately show ?thesis by simp
qed

section \<open>Net present value\<close>

lemma float_underflow_bounds: "0 < FLOAT_UNDERFLOW" "FLOAT_UNDERFLOW < 1"
  by (simp_all add: FLOAT_UNDERFLOW_def)

lemma float_overflow_bound: "2 < FLOAT_OVERFLOW"
  by (simp add: FLOAT_OVERFLOW_def)

lemma py_pow_in_range:
  "power_in_range b i \<Longrightarrow> py_pow b i = Inr (b ^ i) \<and> b ^ i \<noteq> 0"
proof -
  assume "power_in_range b i"
  then have r: "FLOAT_UNDERFLOW < \<bar>b ^ i\<bar>" "\<bar>b ^ i\<bar> < FLOAT_OVERFLOW"
    by (simp_all add: power_in_range_def)
  from r(1) float_underflow_bounds(1) have "0 < \<bar>b ^ i\<bar>" by linarith
  then have "b ^ i \<noteq> 0" by (simp del: power_eq_0_iff)
  moreover from r have "py_pow b i = Inr (b ^ i)" by (simp add: py_pow_def)
  ultimately show ?thesis by blast
qed

lemma py_pow_out_of_range:
  assumes "\<not> power_in_range b i"
  shows "py_pow b i = (if FLOAT_OVERFLOW \<le> \<bar>b ^ i\<bar> then Inl OverflowError else Inr 0)"
  using assms by (auto simp: power_in_range_def py_pow_def)

lemma power_zero_in_range: "power_in_range b 0"
  using float_underflow_bounds(2) float_overflow_bound by (simp add: power_in_range_def)


lemma npv_loop_returns:
  "\<forall>j<length cfs. power_in_range (1 + discount_rate) (i + j) \<Longrightarrow>
   \<exists>v. npv_loop discount_rate i acc cfs = Inr v"
proof (induction cfs arbitrary: i acc)
  case Nil
  show ?case by simp
next
  case (Cons cf cfs)
  from Cons.prems have "power_in_range (1 + discount_rate) (i + 0)" by fastforce
  then have p: "py_pow (1 + discount_rate) i = Inr ((1 + discount_rate) ^ i)"
    and nz: "(1 + discount_rate) ^ i \<noteq> 0"
    using py_pow_in_range by simp_all
  have "\<forall>j<length cfs. power_in_range (1 + discount_rate) (Suc i + j)"
  proof (intro allI impI)
    fix j assume "j < length cfs"
    then have "Suc j < length (cf # cfs)" by simp
    with Cons.prems have "power_in_range (1 + discount_rate) (i + Suc j)" by blast
    then show "power_in_range (1 + discount_rate) (Suc i + j)" by simp
  qed
  from Cons.IH [OF this] show ?case
    using nz by (simp add: p py_truediv_def del: power_eq_0_iff)
qed

lemma npv_loop_raises:
  "k < length cfs \<Longrightarrow> \<forall>j<k. power_in_range (1 + discount_rate) (i + j) \<Longrightarrow>
   \<not> power_in_range (1 + discount_rate) (i + k) \<Longrightarrow>
   npv_loop discount_rate i acc cfs =
     Inl (if FLOAT_OVERFLOW \<le> \<bar>(1 + discount_rate) ^ (i + k)\<bar> then OverflowError
          else ZeroDivisionError)"
proof (induction cfs arbitrary: i acc k)
  case Nil
  then show ?case by simp
next
  case (Cons cf cfs)
  show ?case
  proof (cases k)
    case 0
    with Cons.prems(3) have "\<not> power_in_range (1 + discount_rate) i" by simp
    from py_pow_out_of_range [OF this] 0 show ?thesis
      by (simp add: py_truediv_def)
  next
    case (Suc k')
    with Cons.prems(2) have "power_in_range (1 + discount_rate) (i + 0)" by blast
    then have p: "py_pow (1 + discount_rate) i = Inr ((1 + discount_rate) ^ i)"
      and nz: "(1 + discount_rate) ^ i \<noteq> 0"
      using py_pow_in_range by simp_all
    have a: "k' < length cfs" using Cons.prems(1) Suc by simp
    have b: "\<forall>j<k'. power_in_range (1 + discount_rate) (Suc i + j)"
    proof (intro allI impI)
      fix j assume "j < k'"
      then have "Suc j < k" using Suc by simp
      with Cons.prems(2) have "power_in_range (1 + discount_rate) (i + Suc j)" by blast
      then show "power_in_range (1 + discount_rate) (Suc i + j)" by simp
    qed
    have c: "\<not> power_in_range (1 + discount_rate) (Suc i + k')"
      using Cons.prems(3) Suc by simp
    from Cons.IH [OF a b c] show ?thesis
      using nz Suc by (simp add: p py_truediv_def del: power_eq_0_iff)
  qed
qed



lemma calculate_npv_minus_one:
  assumes "2 \<le> length cfs"
  shows "calculate_npv cfs (- 1) = Inl ZeroDivisionError"
proof -
  have k: "1 < length cfs" using assms by simp
  have a: "\<forall>j<1. power_in_range (1 + (- 1)) (0 + j)"
    using power_zero_in_range by simp
  have b: "\<not> power_in_range (1 + (- 1)) (0 + 1)"
    using float_underflow_bounds(1) by (simp add: power_in_range_def)
  have c: "\<not> FLOAT_OVERFLOW \<le> \<bar>(1 + (- 1)) ^ (0 + 1)\<bar>"
    using float_overflow_bound by simp
  from npv_loop_raises [OF k a b, of "Fin 0"] c show ?thesis
    unfolding calculate_npv_def by (simp only: if_False)
qed

lemma default_rate_in_range:
  assumes "i < YEARS"
  shows "power_in_range (1 + DISCOUNT_RATE) i"
proof -
  have base: "(1::real) \<le> 1 + DISCOUNT_RATE" by (simp add: DISCOUNT_RATE_def)
  then have lo: "1 \<le> (1 + DISCOUNT_RATE) ^ i" by (rule one_le_power)
  from assms have "i \<le> 10" by (simp add: YEARS_def)
  from power_increasing [OF this base]
  have "(1 + DISCOUNT_RATE) ^ i \<le> (1 + DISCOUNT_RATE) ^ 10" .
  also have "\<dots> < 2" by (simp add: DISCOUNT_RATE_def power_divide)
  finally have hi: "(1 + DISCOUNT_RATE) ^ i < 2" .
  from lo hi float_underflow_bounds(2) float_overflow_bound show ?thesis
    by (simp add: power_in_range_def)
qed

lemma npv_default_returns:
  assumes "length cfs \<le> YEARS"
  shows "\<exists>v. calculate_npv cfs DISCOUNT_RATE = Inr v"
proof -
  have "\<forall>j<length cfs. power_in_range (1 + DISCOUNT_RATE) (0 + j)"
    using assms by (simp add: default_rate_in_range)
  from npv_loop_returns [OF this] show ?thesis by (simp add: calculate_npv_def)
qed




lemma calculate_npv_cases:
  "((\<forall>i<length cfs. power_in_range (1 + discount_rate) i)
      \<and> (\<exists>v. calculate_npv cfs discount_rate = Inr v))
   \<or> (\<exists>k<length cfs. \<not> power_in_range (1 + discount_rate) k
        \<and> (\<forall>j<k. power_in_range (1 + discount_rate) j)
        \<and> calculate_npv cfs discount_rate =
            Inl (if FLOAT_OVERFLOW \<le> \<bar>(1 + discount_rate) ^ k\<bar> then OverflowError
                 else ZeroDivisionError))"
proof (cases "\<forall>i<length cfs. power_in_range (1 + discount_rate) i")
  case True
  then have "\<forall>j<length cfs. power_in_range (1 + discount_rate) (0 + j)" by simp
  from npv_loop_returns [OF this] True show ?thesis by (simp add: calculate_npv_def)
next
  case False
  then have ex: "\<exists>i. i < length cfs \<and> \<not> power_in_range (1 + discount_rate) i" by blast
  define k where "k = (LEAST i. i < length cfs \<and> \<not> power_in_range (1 + discount_rate) i)"
  from ex have "k < length cfs \<and> \<not> power_in_range (1 + discount_rate) k"
    unfolding k_def by (rule LeastI_ex)
  then have k: "k < length cfs" "\<not> power_in_range (1 + discount_rate) k" by simp_all
  have before: "\<forall>j<k. power_in_range (1 + discount_rate) j"
  proof (intro allI impI)
    fix j assume jk: "j < k"
    then have "\<not> (j < length cfs \<and> \<not> power_in_range (1 + discount_rate) j)"
      unfolding k_def by (rule not_less_Least)
    moreover from jk k(1) have "j < length cfs" by simp
    ultimately show "power_in_range (1 + discount_rate) j" by blast
  qed
  have a: "\<forall>j<k. power_in_range (1 + discount_rate) (0 + j)" using before by simp
  have b: "\<not> power_in_range (1 + discount_rate) (0 + k)" using k(2) by simp
  from npv_loop_raises [OF k(1) a b, of "Fin 0"]
  have "calculate_npv cfs discount_rate =
            Inl (if FLOAT_OVERFLOW \<le> \<bar>(1 + discount_rate) ^ k\<bar> then OverflowError
                 else ZeroDivisionError)"
    by (simp add: calculate_npv_def)
  with k before show ?thesis by blast
qed

lemma tiny_base_powers:
  "\<forall>j<21. power_in_range (1 / 10 ^ 16) j" "\<not> power_in_range (1 / 10 ^ 16) 21"
proof -
  have lo: "FLOAT_UNDERFLOW < (1 / 10 ^ 16 :: real) ^ 20"
    by (simp add: FLOAT_UNDERFLOW_def power_divide field_simps)
  show "\<forall>j<21. power_in_range (1 / 10 ^ 16) j"
  proof (intro allI impI)
    fix j :: nat assume "j < 21"
    then have "j \<le> 20" by simp
    then have "(1 / 10 ^ 16 :: real) ^ 20 \<le> (1 / 10 ^ 16) ^ j"
      by (rule power_decreasing) simp_all
    with lo have a: "FLOAT_UNDERFLOW < (1 / 10 ^ 16 :: real) ^ j" by linarith
    have "(1 / 10 ^ 16 :: real) ^ j \<le> 1" by (rule power_le_one) simp_all
    with float_overflow_bound have b: "(1 / 10 ^ 16 :: real) ^ j < FLOAT_OVERFLOW" by linarith
    have "0 \<le> (1 / 10 ^ 16 :: real) ^ j" by simp
    with a b show "power_in_range (1 / 10 ^ 16) j"
      unfolding power_in_range_def by (simp only: abs_of_nonneg)
  qed
  have "(1 / 10 ^ 16 :: real) ^ 21 \<le> FLOAT_UNDERFLOW"
    by (simp add: FLOAT_UNDERFLOW_def power_divide field_simps)
  moreover have "0 \<le> (1 / 10 ^ 16 :: real) ^ 21" by simp
  ultimately show "\<not> power_in_range (1 / 10 ^ 16) 21"
    unfolding power_in_range_def by (simp only: abs_of_nonneg) simp
qed

text \<open>
  Claim C4, that \<open>calculate_npv\<close> never raises, fails at the discount rate \<open>-1\<close> the claim
  names: on two flows the second division is by 0.  It fails at other rates too: at \<open>1e155\<close>
  the power of year 2 overflows, and at \<open>-0.9999999999999999\<close> the power of year 21
  underflows to zero and the division by it raises.
\<close>

theorem npv_raises_counterexample:
  "calculate_npv [100, 100] (- 1) = Inl ZeroDivisionError
   \<and> calculate_npv [1, 1, 1] (10 ^ 155) = Inl OverflowError
   \<and> calculate_npv (replicate 22 5) (- 0.9999999999999999) = Inl ZeroDivisionError"
proof -
  have a: "calculate_npv [100, 100] (- 1) = Inl ZeroDivisionError"
    by (rule calculate_npv_minus_one) simp
  have b: "calculate_npv [1, 1, 1] (10 ^ 155) = Inl OverflowError"
    by (simp add: calculate_npv_def py_pow_def py_truediv_def float_result_def
        FLOAT_OVERFLOW_def FLOAT_UNDERFLOW_def)
  have base: "1 + (- 0.9999999999999999 :: real) = 1 / 10 ^ 16" by simp
  have k: "21 < length (replicate 22 (5::real))" by simp
  have p: "\<forall>j<21. power_in_range (1 + (- 0.9999999999999999)) (0 + j)"
    unfolding base using tiny_base_powers(1) by simp
  have q: "\<not> power_in_range (1 + (- 0.9999999999999999)) (0 + 21)"
    unfolding base using tiny_base_powers(2) by simp
  have small: "\<not> FLOAT_OVERFLOW \<le> \<bar>(1 + (- 0.9999999999999999 :: real)) ^ (0 + 21)\<bar>"
  proof -
    have "(1 / 10 ^ 16 :: real) ^ 21 \<le> 1" by (rule power_le_one) simp_all
    moreover have "0 \<le> (1 / 10 ^ 16 :: real) ^ 21" by simp
    ultimately have "\<bar>(1 / 10 ^ 16 :: real) ^ 21\<bar> \<le> 1"
      by (simp only: abs_of_nonneg)
    with float_overflow_bound have "\<bar>(1 / 10 ^ 16 :: real) ^ 21\<bar> < FLOAT_OVERFLOW"
      by linarith
    then show ?thesis unfolding base by simp
  qed
  from npv_loop_raises [OF k p q, of "Fin 0"] small
  have c: "calculate_npv (replicate 22 5) (- 0.9999999999999999) = Inl ZeroDivisionError"
    unfolding calculate_npv_def by (simp only: if_False)
  from a b c show ?thesis by blast
qed

text \<open>
  Claim C4, amended.  \<open>calculate_npv\<close> returns a value exactly when every power
  \<open>(1 + r) ^ i\<close>, for the indices \<open>i\<close> of the sequence, lies in the float range: it neither
  overflows nor rounds to zero (so it is not zero).  Otherwise it raises, and then either
  \<open>ZeroDivisionError\<close> or \<open>OverflowError\<close>.  In particular it raises \<open>ZeroDivisionError\<close> at the
  rate \<open>-1\<close> on two or more flows; it returns at any rate on sequences of at most one
  element, and at the default rate 0.07 on sequences of at most \<open>YEARS\<close> flows, the
  only way the script calls it.
\<close>

theorem npv_returns_iff:
  "((\<exists>v. calculate_npv cfs discount_rate = Inr v) \<longleftrightarrow>
      (\<forall>i<length cfs. FLOAT_UNDERFLOW < \<bar>(1 + discount_rate) ^ i\<bar>
                     \<and> \<bar>(1 + discount_rate) ^ i\<bar> < FLOAT_OVERFLOW))
   \<and> (calculate_npv cfs discount_rate = Inl err \<longrightarrow>
        err = ZeroDivisionError \<or> err = OverflowError)
   \<and> (discount_rate = - 1 \<and> 2 \<le> length cfs \<longrightarrow>
        calculate_npv cfs discount_rate = Inl ZeroDivisionError)
   \<and> (length cfs \<le> 1 \<longrightarrow> (\<exists>v. calculate_npv cfs discount_rate = Inr v))
   \<and> (length cfs \<le> YEARS \<longrightarrow> (\<exists>v. calculate_npv cfs DISCOUNT_RATE = Inr v))"
proof -
  have iff: "(\<exists>v. calculate_npv cfs discount_rate = Inr v) \<longleftrightarrow>
      (\<forall>i<length cfs. FLOAT_UNDERFLOW < \<bar>(1 + discount_rate) ^ i\<bar>
                     \<and> \<bar>(1 + discount_rate) ^ i\<bar> < FLOAT_OVERFLOW)"
    using calculate_npv_cases [of cfs discount_rate]
    unfolding power_in_range_def by auto
  have kinds: "err = ZeroDivisionError \<or> err = OverflowError"
    if "calculate_npv cfs discount_rate = Inl err"
    using calculate_npv_cases [of cfs discount_rate] that by (auto split: if_splits)
  have minus_one: "calculate_npv cfs discount_rate = Inl ZeroDivisionError"
    if "discount_rate = - 1" "2 \<le> length cfs"
    using that calculate_npv_minus_one by simp
  have short: "\<exists>v. calculate_npv cfs discount_rate = Inr v" if "length cfs \<le> 1"
  proof -
    have "\<forall>j<length cfs. power_in_range (1 + discount_rate) (0 + j)"
    proof (intro allI impI)
      fix j assume "j < length cfs"
      with that have "j = 0" by simp
      then show "power_in_range (1 + discount_rate) (0 + j)"
        using power_zero_in_range by simp
    qed
    from npv_loop_returns [OF this, of "Fin 0"] show ?thesis
      unfolding calculate_npv_def .
  qed
  from iff kinds minus_one short npv_default_returns show ?thesis by blast
qed

theorem npv_returns_iff_witness:
  "(\<exists>v. calculate_npv [- 9134000, - 9225140] 0.07 = Inr v)
   \<and> calculate_npv [1, 2, 3] (- 1) = Inl ZeroDivisionError
   \<and> (\<exists>v. calculate_npv [7] (10 ^ 155) = Inr v)
   \<and> (\<exists>v. calculate_npv [- 1, - 2, - 3] DISCOUNT_RATE = Inr v)"
proof -
  have h1: "\<forall>i<length [- 9134000, - 9225140 :: real].
              FLOAT_UNDERFLOW < \<bar>(1 + 0.07 :: real) ^ i\<bar>
              \<and> \<bar>(1 + 0.07 :: real) ^ i\<bar> < FLOAT_OVERFLOW"
    by (simp add: less_Suc_eq numeral_2_eq_2 FLOAT_OVERFLOW_def FLOAT_UNDERFLOW_def)
  have h2: "(- 1::real) = - 1 \<and> 2 \<le> length [1, 2, 3 :: real]" by simp
  have h3: "length [7 :: real] \<le> 1" by simp
  have h4: "length [- 1, - 2, - 3 :: real] \<le> YEARS" by (simp add: YEARS_def)
  from npv_returns_iff [of "[- 9134000, - 9225140]" "0.07"] h1
  have "\<exists>v. calculate_npv [- 9134000, - 9225140] 0.07 = Inr v" by blast
  moreover from npv_returns_iff [of "[1, 2, 3]" "- 1"] h2
  have "calculate_npv [1, 2, 3] (- 1) = Inl ZeroDivisionError" by blast
  moreover from npv_returns_iff [of "[7]" "10 ^ 155"] h3
  have "\<exists>v. calculate_npv [7] (10 ^ 155) = Inr v" by blast
  moreover from npv_returns_iff [of "[- 1, - 2, - 3]"] h4
  have "\<exists>v. calculate_npv [- 1, - 2, - 3] DISCOUNT_RATE = Inr v" by blast
  ultimately show ?thesis by blast
qed

section \<open>Degradation multiplier\<close>

lemma degradation_in_cycle:
  "0 \<le> year \<Longrightarrow> year < DRYDOCK_CYCLE \<Longrightarrow>
   get_degradation_multiplier year = (1 + EFFICIENCY_DEGRADATION_RATE) ^ nat year"
  by (simp add: get_degradation_multiplier_def)

lemma degradation_positive: "0 < get_degradation_multiplier year"
  by (simp add: get_degradation_multiplier_def EFFICIENCY_DEGRADATION_RATE_def)

text \<open>
  Claim C5.  \<open>get_degradation_multiplier year\<close> is \<open>(1 + 0.01) ^ (year mod 5)\<close> and at least 1 (for
  every year index, in particular every index from 0 on); it is 1 at year 0 and again at year
  \<open>DRYDOCK_CYCLE\<close>, and it is strictly increasing over the year indices \<open>0 \<dots> DRYDOCK_CYCLE - 1\<close>.
\<close>

theorem degradation_multiplier_cycle:
  "get_degradation_multiplier year = (1 + 0.01) ^ nat (year mod 5)
   \<and> 1 \<le> get_degradation_multiplier year
   \<and> get_degradation_multiplier 0 = 1
   \<and> get_degradation_multiplier DRYDOCK_CYCLE = 1
   \<and> (0 \<le> a \<and> a < b \<and> b < DRYDOCK_CYCLE \<longrightarrow>
        get_degradation_multiplier a < get_degradation_multiplier b)"
proof (intro conjI impI)
  show "get_degradation_multiplier year = (1 + 0.01) ^ nat (year mod 5)"
    by (simp add: get_degradation_multiplier_def EFFICIENCY_DEGRADATION_RATE_def
        DRYDOCK_CYCLE_def)
next
  have "(1::real) \<le> 1 + EFFICIENCY_DEGRADATION_RATE"
    by (simp add: EFFICIENCY_DEGRADATION_RATE_def)
  then show "1 \<le> get_degradation_multiplier year"
    unfolding get_degradation_multiplier_def by (rule one_le_power)
next
  show "get_degradation_multiplier 0 = 1"
    by (simp add: get_degradation_multiplier_def)
next
  show "get_degradation_multiplier DRYDOCK_CYCLE = 1"
    by (simp add: get_degradation_multiplier_def)
next
  assume h: "0 \<le> a \<and> a < b \<and> b < DRYDOCK_CYCLE"
  then have ea: "get_degradation_multiplier a = (1 + EFFICIENCY_DEGRADATION_RATE) ^ nat a"
    and eb: "get_degradation_multiplier b = (1 + EFFICIENCY_DEGRADATION_RATE) ^ nat b"
    by (simp_all add: degradation_in_cycle)
  have base: "(1::real) < 1 + EFFICIENCY_DEGRADATION_RATE"
    by (simp add: EFFICIENCY_DEGRADATION_RATE_def)
  from h have "nat a < nat b" by simp
  from this base have "(1 + EFFICIENCY_DEGRADATION_RATE) ^ nat a < (1 + EFFICIENCY_DEGRADATION_RATE) ^ nat b"
    by (rule power_strict_increasing)
  with ea eb show "get_degradation_multiplier a < get_degradation_multiplier b" by simp
qed

theorem degradation_multiplier_cycle_witness:
  "get_degradation_multiplier 1 < get_degradation_multiplier 4
   \<and> get_degradation_multiplier 7 = (1 + 0.01) ^ 2"
proof -
  have h: "(0::int) \<le> 1 \<and> (1::int) < 4 \<and> 4 < DRYDOCK_CYCLE"
    by (simp add: DRYDOCK_CYCLE_def)
  from degradation_multiplier_cycle [of 7 1 4] h
  have "get_degradation_multiplier 1 < get_degradation_multiplier 4"
    and "get_degradation_multiplier 7 = (1 + 0.01) ^ nat (7 mod 5)"
    by blast+
  then show ?thesis by simp
qed

section \<open>Emissions\<close>

lemma emission_factor_keys:
  "dict_keys EMISSION_FACTORS = [''VLSFO'', ''MGO'', ''LNG'', ''Methanol'', ''Ammonia'']"
  by (simp add: dict_keys_def EMISSION_FACTORS_def)

lemma fuel_price_keys: "dict_keys FUEL_PRICES = dict_keys EMISSION_FACTORS"
  by (simp add: dict_keys_def EMISSION_FACTORS_def FUEL_PRICES_def)

lemma dict_getitem_in_keys:
  "k \<in> set (dict_keys d) \<Longrightarrow> \<exists>v. dict_getitem d k = Inr v \<and> (k, v) \<in> set d"
proof -
  assume "k \<in> set (dict_keys d)"
  then have "k \<in> dom (map_of d)" by (simp add: dict_keys_def dom_map_of_conv_image_fst)
  then obtain v where "map_of d k = Some v" by blast
  then show ?thesis by (auto simp: dict_getitem_def dest: map_of_SomeD)
qed

lemma dict_getitem_not_in_keys:
  "k \<notin> set (dict_keys d) \<Longrightarrow> dict_getitem d k = Inl (KeyError k)"
proof -
  assume "k \<notin> set (dict_keys d)"
  then have "map_of d k = None" by (simp add: dict_keys_def map_of_eq_None_iff)
  then show ?thesis by (simp add: dict_getitem_def)
qed

lemma emission_factor_lookup:
  "ft \<in> set (dict_keys EMISSION_FACTORS) \<Longrightarrow>
   \<exists>f. dict_getitem EMISSION_FACTORS ft = Inr f \<and> 0 \<le> f"
proof -
  assume "ft \<in> set (dict_keys EMISSION_FACTORS)"
  from dict_getitem_in_keys [OF this] obtain f
    where f: "dict_getitem EMISSION_FACTORS ft = Inr f" "(ft, f) \<in> set EMISSION_FACTORS"
    by blast
  from f(2) have "0 \<le> f" by (auto simp: EMISSION_FACTORS_def)
  with f(1) show ?thesis by blast
qed

lemma fuel_price_lookup:
  "ft \<in> set (dict_keys EMISSION_FACTORS) \<Longrightarrow>
   \<exists>p. dict_getitem FUEL_PRICES ft = Inr p \<and> 0 \<le> p"
proof -
  assume "ft \<in> set (dict_keys EMISSION_FACTORS)"
  then have "ft \<in> set (dict_keys FUEL_PRICES)" by (simp add: fuel_price_keys)
  from dict_getitem_in_keys [OF this] obtain p
    where p: "dict_getitem FUEL_PRICES ft = Inr p" "(ft, p) \<in> set FUEL_PRICES"
    by blast
  from p(2) have "0 \<le> p" by (auto simp: FUEL_PRICES_def)
  with p(1) show ?thesis by blast
qed

text \<open>
  Claim C6.  The table has five entries.  For each of its fuel types and every quantity \<open>q\<close>
  (so every \<open>q \<ge> 0\<close>), \<open>calculate_emissions\<close> returns \<open>q\<close> times the fuel's factor.  It
  raises exactly when the fuel type is not a key of the table, and the error is then the
  lookup failure for that very fuel type (Python's \<open>KeyError\<close>, the specification's
  \<open>UnknownFuelType\<close>): no value is returned and no default is substituted.
\<close>

theorem emissions_table_or_error:
  "length EMISSION_FACTORS = 5
   \<and> calculate_emissions ''VLSFO'' q = Inr (q * 3.114)
   \<and> calculate_emissions ''MGO'' q = Inr (q * 3.206)
   \<and> calculate_emissions ''LNG'' q = Inr (q * 2.750)
   \<and> calculate_emissions ''Methanol'' q = Inr (q * 1.375)
   \<and> calculate_emissions ''Ammonia'' q = Inr (q * 0.000)
   \<and> (\<forall>(f, factor) \<in> set EMISSION_FACTORS. calculate_emissions f q = Inr (q * factor))
   \<and> ((\<exists>err. calculate_emissions ft q = Inl err) \<longleftrightarrow> ft \<notin> set (dict_keys EMISSION_FACTORS))
   \<and> (ft \<notin> set (dict_keys EMISSION_FACTORS) \<longrightarrow> calculate_emissions ft q = Inl (KeyError ft))"
proof -
  have tbl: "length EMISSION_FACTORS = 5
     \<and> calculate_emissions ''VLSFO'' q = Inr (q * 3.114)
     \<and> calculate_emissions ''MGO'' q = Inr (q * 3.206)
     \<and> calculate_emissions ''LNG'' q = Inr (q * 2.750)
     \<and> calculate_emissions ''Methanol'' q = Inr (q * 1.375)
     \<and> calculate_emissions ''Ammonia'' q = Inr (q * 0.000)"
    by (simp add: calculate_emissions_def dict_getitem_def EMISSION_FACTORS_def)
  have each: "\<forall>(f, factor) \<in> set EMISSION_FACTORS. calculate_emissions f q = Inr (q * factor)"
    by (simp add: calculate_emissions_def dict_getitem_def EMISSION_FACTORS_def)
  have miss: "calculate_emissions ft q = Inl (KeyError ft)"
    if "ft \<notin> set (dict_keys EMISSION_FACTORS)"
    using dict_getitem_not_in_keys [OF that] by (simp add: calculate_emissions_def)
  have hit: "\<exists>v. calculate_emissions ft q = Inr v"
    if "ft \<in> set (dict_keys EMISSION_FACTORS)"
    using dict_getitem_in_keys [OF that] by (auto simp: calculate_emissions_def)
  have iff: "(\<exists>err. calculate_emissions ft q = Inl err) \<longleftrightarrow> ft \<notin> set (dict_keys EMISSION_FACTORS)"
    using miss hit by (cases "ft \<in> set (dict_keys EMISSION_FACTORS)") auto
  from tbl each iff miss show ?thesis by blast
qed

theorem emissions_table_or_error_witness:
  "calculate_emissions ''Coal'' 10000 = Inl (KeyError ''Coal'')
   \<and> calculate_emissions ''LNG'' 10000 = Inr 27500"
proof -
  have h: "''Coal'' \<notin> set (dict_keys EMISSION_FACTORS)"
    by (simp add: emission_factor_keys)
  from emissions_table_or_error [of 10000 "''Coal''"] h
  have "calculate_emissions ''Coal'' 10000 = Inl (KeyError ''Coal'')" by blast
  moreover from emissions_table_or_error [of 10000 "''Coal''"]
  have "calculate_emissions ''LNG'' 10000 = Inr (10000 * 2.750)" by blast
  then have "calculate_emissions ''LNG'' 10000 = Inr 27500" by simp
  ultimately show ?thesis by simp
qed

section \<open>The year loops\<close>

lemma for_each_appends:
  assumes "\<And>y es cs cfs. body y (es, cs, cfs) = Inr (es @ [E y], cs @ [T y], cfs @ [- T y])"
  shows "for_each body ys (es, cs, cfs) =
           Inr (es @ map E ys, cs @ map T ys, cfs @ map (\<lambda>y. - T y) ys)"
proof (induction ys arbitrary: es cs cfs)
  case Nil
  show ?case by simp
next
  case (Cons y ys)
  show ?case by (simp add: assms Cons.IH)
qed

lemma baseline_series_closed:
  assumes "dict_getitem EMISSION_FACTORS (fuel_type vessel) = Inr f"
    and "dict_getitem FUEL_PRICES (fuel_type vessel) = Inr p"
  shows "baseline_series vessel tax_rate opex =
     Inr (map (\<lambda>y. annual_fuel_consumption vessel * get_degradation_multiplier y * f)
            (py_range YEARS),
          map (\<lambda>y. annual_fuel_consumption vessel * get_degradation_multiplier y * p
                    + annual_fuel_consumption vessel * get_degradation_multiplier y * f * tax_rate
                    + opex)
            (py_range YEARS),
          map (\<lambda>y. - (annual_fuel_consumption vessel * get_degradation_multiplier y * p
                    + annual_fuel_consumption vessel * get_degradation_multiplier y * f * tax_rate
                    + opex))
            (py_range YEARS))"
proof -
  let ?E = "\<lambda>y. annual_fuel_consumption vessel * get_degradation_multiplier y * f"
  let ?T = "\<lambda>y. annual_fuel_consumption vessel * get_degradation_multiplier y * p + annual_fuel_consumption vessel * get_degradation_multiplier y * f * tax_rate + opex"
  have "\<And>y es cs cfs. baseline_body vessel tax_rate opex y (es, cs, cfs) =
          Inr (es @ [?E y], cs @ [?T y], cfs @ [- ?T y])"
    by (simp add: baseline_body_def calculate_emissions_def calculate_carbon_tax_def assms Let_def)
  from for_each_appends [of "baseline_body vessel tax_rate opex" ?E ?T, OF this]
  show ?thesis unfolding baseline_series_def by simp
qed

lemma tech_series_closed:
  assumes "dict_getitem EMISSION_FACTORS (fuel_type vessel) = Inr f"
    and "dict_getitem FUEL_PRICES (fuel_type vessel) = Inr p"
  shows "tech_series vessel tax_rate opex capex efficiency_gain =
     Inr (map (\<lambda>y. annual_fuel_consumption vessel * get_degradation_multiplier y
                      * (1 - efficiency_gain) * f)
            (py_range YEARS),
          map (\<lambda>y. annual_fuel_consumption vessel * get_degradation_multiplier y
                      * (1 - efficiency_gain) * p
                    + annual_fuel_consumption vessel * get_degradation_multiplier y
                      * (1 - efficiency_gain) * f * tax_rate
                    + opex + (if y = 0 then capex else 0))
            (py_range YEARS),
          map (\<lambda>y. - (annual_fuel_consumption vessel * get_degradation_multiplier y
                      * (1 - efficiency_gain) * p
                    + annual_fuel_consumption vessel * get_degradation_multiplier y
                      * (1 - efficiency_gain) * f * tax_rate
                    + opex + (if y = 0 then capex else 0)))
            (py_range YEARS))"
proof -
  let ?E = "\<lambda>y. annual_fuel_consumption vessel * get_degradation_multiplier y * (1 - efficiency_gain) * f"
  let ?T = "\<lambda>y. annual_fuel_consumption vessel * get_degradation_multiplier y * (1 - efficiency_gain) * p + annual_fuel_consumption vessel * get_degradation_multiplier y * (1 - efficiency_gain) * f * tax_rate + opex + (if y = 0 then capex else 0)"
  have "\<And>y es cs cfs. tech_body vessel tax_rate opex capex efficiency_gain y (es, cs, cfs) =
          Inr (es @ [?E y], cs @ [?T y], cfs @ [- ?T y])"
    by (simp add: tech_body_def calculate_emissions_def calculate_carbon_tax_def apply_tech_efficiency_reduction_def assms Let_def)
  from for_each_appends [of "tech_body vessel tax_rate opex capex efficiency_gain" ?E ?T, OF this]
  show ?thesis unfolding tech_series_def by simp
qed

lemma switch_series_closed:
  assumes "dict_getitem EMISSION_FACTORS alt_fuel = Inr f"
    and "dict_getitem FUEL_PRICES alt_fuel = Inr p"
  shows "switch_series vessel tax_rate opex capex alt_fuel =
     Inr (map (\<lambda>y. annual_fuel_consumption vessel * get_degradation_multiplier y * f)
            (py_range YEARS),
          map (\<lambda>y. annual_fuel_consumption vessel * get_degradation_multiplier y * p
                    + annual_fuel_consumption vessel * get_degradation_multiplier y * f * tax_rate
                    + opex + (if y = 0 then capex else 0))
            (py_range YEARS),
          map (\<lambda>y. - (annual_fuel_consumption vessel * get_degradation_multiplier y * p
                    + annual_fuel_consumption vessel * get_degradation_multiplier y * f * tax_rate
                    + opex + (if y = 0 then capex else 0)))
            (py_range YEARS))"
proof -
  let ?E = "\<lambda>y. annual_fuel_consumption vessel * get_degradation_multiplier y * f"
  let ?T = "\<lambda>y. annual_fuel_consumption vessel * get_degradation_multiplier y * p + annual_fuel_consumption vessel * get_degradation_multiplier y * f * tax_rate + opex + (if y = 0 then capex else 0)"
  have "\<And>y es cs cfs. switch_body vessel tax_rate opex capex alt_fuel y (es, cs, cfs) =
          Inr (es @ [?E y], cs @ [?T y], cfs @ [- ?T y])"
    by (simp add: switch_body_def calculate_emissions_def calculate_carbon_tax_def assms Let_def)
  from for_each_appends [of "switch_body vessel tax_rate opex capex alt_fuel" ?E ?T, OF this]
  show ?thesis unfolding switch_series_def by simp
qed

lemma length_py_range: "length (py_range n) = n"
  by (simp add: py_range_def)

lemma year_cost_nonneg:
  fixes c m f p tax_rate opex extra :: real
  assumes "0 \<le> c" "0 < m" "0 \<le> f" "0 \<le> p" "0 \<le> tax_rate" "0 \<le> opex" "0 \<le> extra"
  shows "0 \<le> c * m * p + c * m * f * tax_rate + opex + extra"
proof -
  from assms have "0 \<le> c * m" by simp
  with assms have "0 \<le> c * m * p" "0 \<le> c * m * f * tax_rate" by simp_all
  with assms show ?thesis by linarith
qed

section \<open>Properties of the scenario series\<close>

lemma negated_costs_nonpositive:
  fixes T :: "int \<Rightarrow> real"
  assumes "\<And>y. 0 \<le> T y"
  shows "\<forall>x\<in>set (map (\<lambda>y. - T y) ys). x \<le> 0"
  using assms by simp

text \<open>
  Claim C2.  When the vessel's fuel type is one of the table (the sidebar offers no other),
  and consumption, tax rate, OPEX and CAPEX are not negative and the efficiency gain lies in
  \<open>[0, 1]\<close>, each year loop runs to its end and every element of its \<open>cash_flows\<close> list is at
  most 0: for Baseline, for Tech Upgrade, and for the switch to any fuel of the table.
\<close>

theorem cash_flows_nonpositive:
  assumes "fuel_type vessel \<in> set (dict_keys EMISSION_FACTORS)"
    and "0 \<le> annual_fuel_consumption vessel" and "0 \<le> tax_rate" and "0 \<le> opex"
    and "0 \<le> capex" and "0 \<le> efficiency_gain" and "efficiency_gain \<le> 1"
  shows "(\<exists>es cs cfs. baseline_series vessel tax_rate opex = Inr (es, cs, cfs)
            \<and> length cfs = YEARS \<and> (\<forall>x\<in>set cfs. x \<le> 0))
       \<and> (\<exists>es cs cfs. tech_series vessel tax_rate opex capex efficiency_gain = Inr (es, cs, cfs)
            \<and> length cfs = YEARS \<and> (\<forall>x\<in>set cfs. x \<le> 0))
       \<and> (\<forall>alt_fuel\<in>set (dict_keys EMISSION_FACTORS).
            \<exists>es cs cfs. switch_series vessel tax_rate opex capex alt_fuel = Inr (es, cs, cfs)
              \<and> length cfs = YEARS \<and> (\<forall>x\<in>set cfs. x \<le> 0))"
proof (intro conjI ballI)
  from emission_factor_lookup [OF assms(1)] obtain f
    where f: "dict_getitem EMISSION_FACTORS (fuel_type vessel) = Inr f" "0 \<le> f" by blast
  from fuel_price_lookup [OF assms(1)] obtain p
    where p: "dict_getitem FUEL_PRICES (fuel_type vessel) = Inr p" "0 \<le> p" by blast
  have base: "0 \<le> annual_fuel_consumption vessel * get_degradation_multiplier y * p
                 + annual_fuel_consumption vessel * get_degradation_multiplier y * f * tax_rate
                 + opex" for y
    using year_cost_nonneg [OF assms(2) degradation_positive f(2) p(2) assms(3) assms(4), of 0 y]
    by simp
  show "\<exists>es cs cfs. baseline_series vessel tax_rate opex = Inr (es, cs, cfs)
            \<and> length cfs = YEARS \<and> (\<forall>x\<in>set cfs. x \<le> 0)"
    unfolding baseline_series_closed [OF f(1) p(1)]
    by (intro exI conjI, rule refl, simp add: length_py_range,
        rule negated_costs_nonpositive, rule base)
  have fuel: "0 \<le> annual_fuel_consumption vessel * (1 - efficiency_gain)"
    using assms(2) assms(7) by simp
  have tech: "0 \<le> annual_fuel_consumption vessel * get_degradation_multiplier y
                    * (1 - efficiency_gain) * p
                 + annual_fuel_consumption vessel * get_degradation_multiplier y
                    * (1 - efficiency_gain) * f * tax_rate
                 + opex + (if y = 0 then capex else 0)" for y
  proof -
    have "0 \<le> (if y = 0 then capex else 0)" using assms(5) by simp
    from year_cost_nonneg [OF fuel degradation_positive f(2) p(2) assms(3) assms(4) this, of y]
    show ?thesis by (simp add: mult.assoc mult.left_commute)
  qed
  show "\<exists>es cs cfs. tech_series vessel tax_rate opex capex efficiency_gain = Inr (es, cs, cfs)
            \<and> length cfs = YEARS \<and> (\<forall>x\<in>set cfs. x \<le> 0)"
    unfolding tech_series_closed [OF f(1) p(1)]
    by (intro exI conjI, rule refl, simp add: length_py_range,
        rule negated_costs_nonpositive, rule tech)
next
  fix alt_fuel
  assume alt: "alt_fuel \<in> set (dict_keys EMISSION_FACTORS)"
  from emission_factor_lookup [OF alt] obtain f
    where f: "dict_getitem EMISSION_FACTORS alt_fuel = Inr f" "0 \<le> f" by blast
  from fuel_price_lookup [OF alt] obtain p
    where p: "dict_getitem FUEL_PRICES alt_fuel = Inr p" "0 \<le> p" by blast
  have sw: "0 \<le> annual_fuel_consumption vessel * get_degradation_multiplier y * p
                 + annual_fuel_consumption vessel * get_degradation_multiplier y * f * tax_rate
                 + opex + (if y = 0 then capex else 0)" for y
  proof -
    have "0 \<le> (if y = 0 then capex else 0)" using assms(5) by simp
    from year_cost_nonneg [OF assms(2) degradation_positive f(2) p(2) assms(3) assms(4) this, of y]
    show ?thesis .
  qed
  show "\<exists>es cs cfs. switch_series vessel tax_rate opex capex alt_fuel = Inr (es, cs, cfs)
            \<and> length cfs = YEARS \<and> (\<forall>x\<in>set cfs. x \<le> 0)"
    unfolding switch_series_closed [OF f(1) p(1)]
    by (intro exI conjI, rule refl, simp add: length_py_range,
        rule negated_costs_nonpositive, rule sw)
qed

theorem cash_flows_nonpositive_witness:
  "(\<exists>es cs cfs. baseline_series
        \<lparr>dwt = 50000, fuel_type = ''VLSFO'', annual_fuel_consumption = 10000\<rparr> 100 20000
          = Inr (es, cs, cfs) \<and> length cfs = YEARS \<and> list_all (\<lambda>x. x \<le> 0) cfs)
   \<and> (\<exists>es cs cfs. tech_series
        \<lparr>dwt = 50000, fuel_type = ''VLSFO'', annual_fuel_consumption = 10000\<rparr> 100 20000
          500000 0.1 = Inr (es, cs, cfs) \<and> length cfs = YEARS \<and> list_all (\<lambda>x. x \<le> 0) cfs)
   \<and> (\<exists>es cs cfs. switch_series
        \<lparr>dwt = 50000, fuel_type = ''VLSFO'', annual_fuel_consumption = 10000\<rparr> 100 20000
          500000 ''Ammonia'' = Inr (es, cs, cfs) \<and> length cfs = YEARS
          \<and> list_all (\<lambda>x. x \<le> 0) cfs)"
proof -
  let ?v = "\<lparr>dwt = 50000, fuel_type = ''VLSFO'', annual_fuel_consumption = 10000\<rparr>"
  have h1: "fuel_type ?v \<in> set (dict_keys EMISSION_FACTORS)"
    by (simp add: emission_factor_keys)
  have h2: "0 \<le> annual_fuel_consumption ?v" by simp
  have h3: "(0::real) \<le> 100" "(0::real) \<le> 20000" "(0::real) \<le> 500000"
    "(0::real) \<le> 0.1" "(0.1::real) \<le> 1" by simp_all
  have h4: "''Ammonia'' \<in> set (dict_keys EMISSION_FACTORS)"
    by (simp add: emission_factor_keys)
  from cash_flows_nonpositive [OF h1 h2 h3] h4 show ?thesis
    by (simp add: list_all_iff)
qed

text \<open>
  Claim C10.  For a vessel whose fuel type is in the table, both year loops run to their end
  and, at every year index below the horizon, the Tech Upgrade emissions are
  \<open>(1 - efficiency_gain)\<close> times the Baseline emissions of that year.
\<close>

theorem tech_emissions_scaled_baseline:
  assumes "fuel_type vessel \<in> set (dict_keys EMISSION_FACTORS)"
  shows "\<exists>es cs cfs es' cs' cfs'.
           baseline_series vessel tax_rate opex = Inr (es, cs, cfs)
         \<and> tech_series vessel tax_rate opex capex efficiency_gain = Inr (es', cs', cfs')
         \<and> length es = YEARS \<and> length es' = YEARS
         \<and> (\<forall>i<YEARS. es' ! i = (1 - efficiency_gain) * es ! i)"
proof -
  from emission_factor_lookup [OF assms] obtain f
    where f: "dict_getitem EMISSION_FACTORS (fuel_type vessel) = Inr f" by blast
  from fuel_price_lookup [OF assms] obtain p
    where p: "dict_getitem FUEL_PRICES (fuel_type vessel) = Inr p" by blast
  show ?thesis
    unfolding baseline_series_closed [OF f p] tech_series_closed [OF f p]
    by (simp add: length_py_range)
qed

theorem tech_emissions_scaled_baseline_witness:
  "\<exists>es cs cfs es' cs' cfs'.
      baseline_series \<lparr>dwt = 50000, fuel_type = ''MGO'', annual_fuel_consumption = 8000\<rparr>
        100 20000 = Inr (es, cs, cfs)
    \<and> tech_series \<lparr>dwt = 50000, fuel_type = ''MGO'', annual_fuel_consumption = 8000\<rparr>
        100 20000 500000 0.25 = Inr (es', cs', cfs')
    \<and> es' ! 3 = (1 - 0.25) * es ! 3"
proof -
  let ?v = "\<lparr>dwt = 50000, fuel_type = ''MGO'', annual_fuel_consumption = 8000\<rparr>"
  have h: "fuel_type ?v \<in> set (dict_keys EMISSION_FACTORS)"
    by (simp add: emission_factor_keys)
  have "(3::nat) < YEARS" by (simp add: YEARS_def)
  with tech_emissions_scaled_baseline [OF h, of 100 20000 500000 "0.25"] show ?thesis
    by blast
qed

lemma py_range_nth: "i < n \<Longrightarrow> py_range n ! i = int i"
  by (simp add: py_range_def)

lemma py_range_YEARS: "py_range YEARS = 0 # map int [1..<YEARS]"
  by (simp add: py_range_def YEARS_def upt_conv_Cons)

lemma vlsfo_factor: "dict_getitem EMISSION_FACTORS ''VLSFO'' = Inr 3.114"
  by (simp add: dict_getitem_def EMISSION_FACTORS_def)

lemma vlsfo_price: "dict_getitem FUEL_PRICES ''VLSFO'' = Inr 600"
  by (simp add: dict_getitem_def FUEL_PRICES_def)

lemma degradation_year_zero: "get_degradation_multiplier 0 = 1"
  by (simp add: get_degradation_multiplier_def)

text \<open>
  Claim C9.  With consumption 10000, fuel VLSFO, tax rate 100, OPEX 20000, CAPEX 500000 and
  efficiency gain 0.10 (the deadweight plays no part), the first entries are: Baseline
  emissions 31140 and cost 9134000; Tech Upgrade fuel burn 9000, emissions 28026 and cost
  8722600.  The Baseline loop takes no CAPEX at all, and the Tech Upgrade costs with CAPEX
  500000 are the costs with CAPEX 0 with 500000 added to the first entry only.
\<close>

theorem default_inputs_year_zero:
  "map_sum id (\<lambda>(es, cs, cfs). (es ! 0, cs ! 0))
      (baseline_series \<lparr>dwt = d, fuel_type = ''VLSFO'', annual_fuel_consumption = 10000\<rparr>
         100 20000) = Inr (31140, 9134000)
   \<and> apply_tech_efficiency_reduction (10000 * get_degradation_multiplier 0) 0.10 = 9000
   \<and> map_sum id (\<lambda>(es, cs, cfs). (es ! 0, cs ! 0))
      (tech_series \<lparr>dwt = d, fuel_type = ''VLSFO'', annual_fuel_consumption = 10000\<rparr>
         100 20000 500000 0.10) = Inr (28026, 8722600)
   \<and> map_sum id (\<lambda>(es, cs, cfs). cs)
      (tech_series \<lparr>dwt = d, fuel_type = ''VLSFO'', annual_fuel_consumption = 10000\<rparr>
         100 20000 500000 0.10)
     = map_sum id (\<lambda>(es, cs, cfs). (cs ! 0 + 500000) # tl cs)
      (tech_series \<lparr>dwt = d, fuel_type = ''VLSFO'', annual_fuel_consumption = 10000\<rparr>
         100 20000 0 0.10)"
proof -
  let ?v = "\<lparr>dwt = d, fuel_type = ''VLSFO'', annual_fuel_consumption = 10000\<rparr>"
  have f: "dict_getitem EMISSION_FACTORS (fuel_type ?v) = Inr 3.114"
    by (simp add: vlsfo_factor)
  have p: "dict_getitem FUEL_PRICES (fuel_type ?v) = Inr 600"
    by (simp add: vlsfo_price)
  have y0: "0 < YEARS" by (simp add: YEARS_def)
  have a: "map_sum id (\<lambda>(es, cs, cfs). (es ! 0, cs ! 0)) (baseline_series ?v 100 20000)
             = Inr (31140, 9134000)"
    unfolding baseline_series_closed [OF f p]
    by (simp add: y0 length_py_range py_range_nth degradation_year_zero)
  have b: "apply_tech_efficiency_reduction (10000 * get_degradation_multiplier 0) 0.10 = 9000"
    by (simp add: apply_tech_efficiency_reduction_def degradation_year_zero)
  have c: "map_sum id (\<lambda>(es, cs, cfs). (es ! 0, cs ! 0)) (tech_series ?v 100 20000 500000 0.10)
             = Inr (28026, 8722600)"
    unfolding tech_series_closed [OF f p]
    by (simp add: y0 length_py_range py_range_nth degradation_year_zero)
  have e: "map_sum id (\<lambda>(es, cs, cfs). cs) (tech_series ?v 100 20000 500000 0.10)
      = map_sum id (\<lambda>(es, cs, cfs). (cs ! 0 + 500000) # tl cs) (tech_series ?v 100 20000 0 0.10)"
    unfolding tech_series_closed [OF f p]
    by (simp add: py_range_YEARS)
  from a b c e show ?thesis by blast
qed

section \<open>The run and its summary\<close>

lemma dict_setitem_fresh: "k \<notin> set (dict_keys d) \<Longrightarrow> dict_setitem d k v = d @ [(k, v)]"
  by (induction d) (auto simp: dict_keys_def)

lemma baseline_series_returns:
  assumes "fuel_type vessel \<in> set (dict_keys EMISSION_FACTORS)"
  shows "\<exists>es cs cfs. baseline_series vessel tax_rate opex = Inr (es, cs, cfs)
           \<and> length es = YEARS \<and> length cs = YEARS \<and> length cfs = YEARS"
proof -
  from emission_factor_lookup [OF assms] obtain f
    where f: "dict_getitem EMISSION_FACTORS (fuel_type vessel) = Inr f" by blast
  from fuel_price_lookup [OF assms] obtain p
    where p: "dict_getitem FUEL_PRICES (fuel_type vessel) = Inr p" by blast
  show ?thesis unfolding baseline_series_closed [OF f p] by (simp add: length_py_range)
qed

lemma tech_series_returns:
  assumes "fuel_type vessel \<in> set (dict_keys EMISSION_FACTORS)"
  shows "\<exists>es cs cfs. tech_series vessel tax_rate opex capex efficiency_gain = Inr (es, cs, cfs)
           \<and> length es = YEARS \<and> length cs = YEARS \<and> length cfs = YEARS"
proof -
  from emission_factor_lookup [OF assms] obtain f
    where f: "dict_getitem EMISSION_FACTORS (fuel_type vessel) = Inr f" by blast
  from fuel_price_lookup [OF assms] obtain p
    where p: "dict_getitem FUEL_PRICES (fuel_type vessel) = Inr p" by blast
  show ?thesis unfolding tech_series_closed [OF f p] by (simp add: length_py_range)
qed

lemma switch_series_returns:
  assumes "alt_fuel \<in> set (dict_keys EMISSION_FACTORS)"
  shows "\<exists>es cs cfs. switch_series vessel tax_rate opex capex alt_fuel = Inr (es, cs, cfs)
           \<and> length es = YEARS \<and> length cs = YEARS \<and> length cfs = YEARS"
proof -
  from emission_factor_lookup [OF assms] obtain f
    where f: "dict_getitem EMISSION_FACTORS alt_fuel = Inr f" by blast
  from fuel_price_lookup [OF assms] obtain p
    where p: "dict_getitem FUEL_PRICES alt_fuel = Inr p" by blast
  show ?thesis unfolding switch_series_closed [OF f p] by (simp add: length_py_range)
qed

lemma payback_loop_shape:
  "payback_loop i cum cfs = PyStr ''> 10''
   \<or> (\<exists>n. payback_loop i cum cfs = PyInt n \<and> int i + 1 \<le> n \<and> n \<le> int i + int (length cfs))"
proof (induction cfs arbitrary: i cum)
  case Nil
  show ?case by (simp add: str_nat_YEARS)
next
  case (Cons cf cfs)
  show ?case
  proof (cases "0 \<le> cum + cf")
    case True
    then show ?thesis by (simp add: Let_def)
  next
    case False
    with Cons.IH [of "Suc i" "cum + cf"] show ?thesis
      by (auto simp: Let_def)
  qed
qed

lemma payback_period_ok: "length cfs = YEARS \<Longrightarrow> payback_ok (calculate_payback_period cfs)"
  using payback_loop_shape [of 0 0 cfs]
  by (auto simp: payback_ok_def calculate_payback_period_def)

lemma scenario_okI:
  "length es = YEARS \<Longrightarrow> length cs = YEARS \<Longrightarrow> scenario_ok [(''emissions'', es), (''costs'', cs)]"
  by (simp add: scenario_ok_def dict_keys_def)

lemma baseline_scenario_initial:
  assumes "fuel_type vessel \<in> set (dict_keys EMISSION_FACTORS)"
  shows "\<exists>st data v. baseline_scenario vessel tax_rate opex initial_state = Inr st
           \<and> scenarios st = [(''Baseline'', data)] \<and> scenario_ok data
           \<and> npv_summary st = [(''Baseline'', v)] \<and> payback_summary st = []"
proof -
  from baseline_series_returns [OF assms] obtain es cs cfs
    where s: "baseline_series vessel tax_rate opex = Inr (es, cs, cfs)"
      and l: "length es = YEARS" "length cs = YEARS" and lc: "length cfs = YEARS" by blast
  from lc have "length cfs \<le> YEARS" by simp
  from npv_default_returns [OF this] obtain v
    where v: "calculate_npv cfs DISCOUNT_RATE = Inr v" by blast
  show ?thesis
    using scenario_okI [OF l]
    by (simp add: baseline_scenario_def s v initial_state_def Let_def)
qed

lemma tech_scenario_fresh:
  assumes "fuel_type vessel \<in> set (dict_keys EMISSION_FACTORS)"
    and "''Tech Upgrade'' \<notin> set (dict_keys (scenarios st))"
    and "''Tech Upgrade'' \<notin> set (dict_keys (npv_summary st))"
    and "''Tech Upgrade'' \<notin> set (dict_keys (payback_summary st))"
  shows "\<exists>st' data v pb. tech_scenario vessel tax_rate opex capex efficiency_gain st = Inr st'
           \<and> scenarios st' = scenarios st @ [(''Tech Upgrade'', data)] \<and> scenario_ok data
           \<and> npv_summary st' = npv_summary st @ [(''Tech Upgrade'', v)]
           \<and> payback_summary st' = payback_summary st @ [(''Tech Upgrade'', pb)] \<and> payback_ok pb"
proof -
  from tech_series_returns [OF assms(1)] obtain es cs cfs
    where s: "tech_series vessel tax_rate opex capex efficiency_gain = Inr (es, cs, cfs)"
      and l: "length es = YEARS" "length cs = YEARS" and lc: "length cfs = YEARS" by blast
  from lc have "length cfs \<le> YEARS" by simp
  from npv_default_returns [OF this] obtain v
    where v: "calculate_npv cfs DISCOUNT_RATE = Inr v" by blast
  show ?thesis
    using scenario_okI [OF l] payback_period_ok [OF lc]
    by (simp add: tech_scenario_def s v Let_def dict_setitem_fresh assms)
qed

lemma switch_scenario_fresh:
  assumes "alt_fuel \<in> set (dict_keys EMISSION_FACTORS)"
    and "alt_fuel \<noteq> fuel_type vessel"
    and "''Switch to '' @ alt_fuel \<notin> set (dict_keys (scenarios st))"
    and "''Switch to '' @ alt_fuel \<notin> set (dict_keys (npv_summary st))"
    and "''Switch to '' @ alt_fuel \<notin> set (dict_keys (payback_summary st))"
  shows "\<exists>st' data v pb. switch_scenario vessel tax_rate opex capex alt_fuel st = Inr st'
           \<and> scenarios st' = scenarios st @ [(''Switch to '' @ alt_fuel, data)] \<and> scenario_ok data
           \<and> npv_summary st' = npv_summary st @ [(''Switch to '' @ alt_fuel, v)]
           \<and> payback_summary st' = payback_summary st @ [(''Switch to '' @ alt_fuel, pb)]
           \<and> payback_ok pb"
proof -
  from switch_series_returns [OF assms(1)] obtain es cs cfs
    where s: "switch_series vessel tax_rate opex capex alt_fuel = Inr (es, cs, cfs)"
      and l: "length es = YEARS" "length cs = YEARS" and lc: "length cfs = YEARS" by blast
  from lc have "length cfs \<le> YEARS" by simp
  from npv_default_returns [OF this] obtain v
    where v: "calculate_npv cfs DISCOUNT_RATE = Inr v" by blast
  show ?thesis
    using scenario_okI [OF l] payback_period_ok [OF lc] assms(2-5)
    by (simp add: switch_scenario_def s v Let_def dict_setitem_fresh)
qed

lemma switch_loop_shape:
  assumes "set fs \<subseteq> set (dict_keys EMISSION_FACTORS)" and "distinct fs"
    and "\<forall>f\<in>set fs. ''Switch to '' @ f \<notin> set (dict_keys (scenarios st))
                     \<and> ''Switch to '' @ f \<notin> set (dict_keys (npv_summary st))
                     \<and> ''Switch to '' @ f \<notin> set (dict_keys (payback_summary st))"
    and "list_all scenario_ok (map snd (scenarios st))"
    and "list_all payback_ok (map snd (payback_summary st))"
  shows "\<exists>st'. for_each (switch_scenario vessel tax_rate opex capex) fs st = Inr st'
     \<and> dict_keys (scenarios st') = dict_keys (scenarios st)
          @ map (\<lambda>f. ''Switch to '' @ f) (filter (\<lambda>f. f \<noteq> fuel_type vessel) fs)
     \<and> dict_keys (npv_summary st') = dict_keys (npv_summary st)
          @ map (\<lambda>f. ''Switch to '' @ f) (filter (\<lambda>f. f \<noteq> fuel_type vessel) fs)
     \<and> dict_keys (payback_summary st') = dict_keys (payback_summary st)
          @ map (\<lambda>f. ''Switch to '' @ f) (filter (\<lambda>f. f \<noteq> fuel_type vessel) fs)
     \<and> list_all scenario_ok (map snd (scenarios st'))
     \<and> list_all payback_ok (map snd (payback_summary st'))"
  using assms
proof (induction fs arbitrary: st)
  case Nil
  then show ?case by simp
next
  case (Cons f fs)
  have rest: "set fs \<subseteq> set (dict_keys EMISSION_FACTORS)" "distinct fs" "f \<notin> set fs"
    using Cons.prems(1,2) by simp_all
  show ?case
  proof (cases "f = fuel_type vessel")
    case True
    have skip: "switch_scenario vessel tax_rate opex capex f st = Inr st"
      using True by (simp add: switch_scenario_def)
    have fresh: "\<forall>g\<in>set fs. ''Switch to '' @ g \<notin> set (dict_keys (scenarios st))
                     \<and> ''Switch to '' @ g \<notin> set (dict_keys (npv_summary st))
                     \<and> ''Switch to '' @ g \<notin> set (dict_keys (payback_summary st))"
      using Cons.prems(3) by simp
    from Cons.IH [OF rest(1,2) fresh Cons.prems(4,5)] skip True show ?thesis
      by simp
  next
    case False
    have f_in: "f \<in> set (dict_keys EMISSION_FACTORS)" using Cons.prems(1) by simp
    have f_fresh: "''Switch to '' @ f \<notin> set (dict_keys (scenarios st))"
      "''Switch to '' @ f \<notin> set (dict_keys (npv_summary st))"
      "''Switch to '' @ f \<notin> set (dict_keys (payback_summary st))"
      using Cons.prems(3) by simp_all
    from switch_scenario_fresh [OF f_in False f_fresh, of tax_rate opex capex]
    obtain st1 data v pb
      where step: "switch_scenario vessel tax_rate opex capex f st = Inr st1"
        and sc: "scenarios st1 = scenarios st @ [(''Switch to '' @ f, data)]" "scenario_ok data"
        and nv: "npv_summary st1 = npv_summary st @ [(''Switch to '' @ f, v)]"
        and pb: "payback_summary st1 = payback_summary st @ [(''Switch to '' @ f, pb)]"
                "payback_ok pb"
      by blast
    have fresh1: "\<forall>g\<in>set fs. ''Switch to '' @ g \<notin> set (dict_keys (scenarios st1))
                     \<and> ''Switch to '' @ g \<notin> set (dict_keys (npv_summary st1))
                     \<and> ''Switch to '' @ g \<notin> set (dict_keys (payback_summary st1))"
      using Cons.prems(3) rest(3) by (auto simp: sc nv pb dict_keys_def)
    have ok1: "list_all scenario_ok (map snd (scenarios st1))"
      "list_all payback_ok (map snd (payback_summary st1))"
      using Cons.prems(4,5) sc pb by simp_all
    from Cons.IH [OF rest(1,2) fresh1 ok1] obtain st'
      where loop: "for_each (switch_scenario vessel tax_rate opex capex) fs st1 = Inr st'"
        and k: "dict_keys (scenarios st') = dict_keys (scenarios st1)
                  @ map (\<lambda>f. ''Switch to '' @ f) (filter (\<lambda>f. f \<noteq> fuel_type vessel) fs)"
               "dict_keys (npv_summary st') = dict_keys (npv_summary st1)
                  @ map (\<lambda>f. ''Switch to '' @ f) (filter (\<lambda>f. f \<noteq> fuel_type vessel) fs)"
               "dict_keys (payback_summary st') = dict_keys (payback_summary st1)
                  @ map (\<lambda>f. ''Switch to '' @ f) (filter (\<lambda>f. f \<noteq> fuel_type vessel) fs)"
        and ok: "list_all scenario_ok (map snd (scenarios st'))"
                "list_all payback_ok (map snd (payback_summary st'))"
      by blast
    have "for_each (switch_scenario vessel tax_rate opex capex) (f # fs) st = Inr st'"
      using step loop by simp
    moreover have "dict_keys (scenarios st') = dict_keys (scenarios st)
          @ map (\<lambda>f. ''Switch to '' @ f) (filter (\<lambda>f. f \<noteq> fuel_type vessel) (f # fs))"
      using k(1) False by (simp add: sc dict_keys_def)
    moreover have "dict_keys (npv_summary st') = dict_keys (npv_summary st)
          @ map (\<lambda>f. ''Switch to '' @ f) (filter (\<lambda>f. f \<noteq> fuel_type vessel) (f # fs))"
      using k(2) False by (simp add: nv dict_keys_def)
    moreover have "dict_keys (payback_summary st') = dict_keys (payback_summary st)
          @ map (\<lambda>f. ''Switch to '' @ f) (filter (\<lambda>f. f \<noteq> fuel_type vessel) (f # fs))"
      using k(3) False by (simp add: pb dict_keys_def)
    ultimately show ?thesis using ok by blast
  qed
qed

lemma run_shape:
  assumes "fuel_type vessel \<in> set (dict_keys EMISSION_FACTORS)"
  shows "\<exists>st. run vessel tax_rate opex capex efficiency_gain = Inr st
     \<and> dict_keys (scenarios st) = ''Baseline'' # ''Tech Upgrade''
          # map (\<lambda>f. ''Switch to '' @ f)
              (filter (\<lambda>f. f \<noteq> fuel_type vessel) (dict_keys EMISSION_FACTORS))
     \<and> dict_keys (npv_summary st) = dict_keys (scenarios st)
     \<and> dict_keys (payback_summary st) = tl (dict_keys (scenarios st))
     \<and> list_all scenario_ok (map snd (scenarios st))
     \<and> list_all payback_ok (map snd (payback_summary st))"
proof -
  from baseline_scenario_initial [OF assms, of tax_rate opex] obtain st1 data1 v1
    where b: "baseline_scenario vessel tax_rate opex initial_state = Inr st1"
      and b1: "scenarios st1 = [(''Baseline'', data1)]" "scenario_ok data1"
              "npv_summary st1 = [(''Baseline'', v1)]" "payback_summary st1 = []"
    by blast
  have fresh1: "''Tech Upgrade'' \<notin> set (dict_keys (scenarios st1))"
    "''Tech Upgrade'' \<notin> set (dict_keys (npv_summary st1))"
    "''Tech Upgrade'' \<notin> set (dict_keys (payback_summary st1))"
    by (simp_all add: b1 dict_keys_def)
  from tech_scenario_fresh [OF assms fresh1, of tax_rate opex capex efficiency_gain]
  obtain st2 data2 v2 pb2
    where t: "tech_scenario vessel tax_rate opex capex efficiency_gain st1 = Inr st2"
      and t1: "scenarios st2 = scenarios st1 @ [(''Tech Upgrade'', data2)]" "scenario_ok data2"
              "npv_summary st2 = npv_summary st1 @ [(''Tech Upgrade'', v2)]"
              "payback_summary st2 = payback_summary st1 @ [(''Tech Upgrade'', pb2)]"
              "payback_ok pb2"
    by blast
  have keys2: "dict_keys (scenarios st2) = [''Baseline'', ''Tech Upgrade'']"
    "dict_keys (npv_summary st2) = [''Baseline'', ''Tech Upgrade'']"
    "dict_keys (payback_summary st2) = [''Tech Upgrade'']"
    by (simp_all add: b1 t1 dict_keys_def)
  have fresh2: "\<forall>f\<in>set (dict_keys EMISSION_FACTORS).
        ''Switch to '' @ f \<notin> set (dict_keys (scenarios st2))
      \<and> ''Switch to '' @ f \<notin> set (dict_keys (npv_summary st2))
      \<and> ''Switch to '' @ f \<notin> set (dict_keys (payback_summary st2))"
    by (simp add: keys2)
  have ok2: "list_all scenario_ok (map snd (scenarios st2))"
    "list_all payback_ok (map snd (payback_summary st2))"
    by (simp_all add: b1 t1)
  have d: "distinct (dict_keys EMISSION_FACTORS)" by (simp add: emission_factor_keys)
  from switch_loop_shape [OF subset_refl d fresh2 ok2, of vessel tax_rate opex capex]
  obtain st where loop: "for_each (switch_scenario vessel tax_rate opex capex)
                           (dict_keys EMISSION_FACTORS) st2 = Inr st"
    and k: "dict_keys (scenarios st) = dict_keys (scenarios st2)
              @ map (\<lambda>f. ''Switch to '' @ f)
                  (filter (\<lambda>f. f \<noteq> fuel_type vessel) (dict_keys EMISSION_FACTORS))"
           "dict_keys (npv_summary st) = dict_keys (npv_summary st2)
              @ map (\<lambda>f. ''Switch to '' @ f)
                  (filter (\<lambda>f. f \<noteq> fuel_type vessel) (dict_keys EMISSION_FACTORS))"
           "dict_keys (payback_summary st) = dict_keys (payback_summary st2)
              @ map (\<lambda>f. ''Switch to '' @ f)
                  (filter (\<lambda>f. f \<noteq> fuel_type vessel) (dict_keys EMISSION_FACTORS))"
    and ok: "list_all scenario_ok (map snd (scenarios st))"
            "list_all payback_ok (map snd (payback_summary st))"
    by blast
  have "run vessel tax_rate opex capex efficiency_gain = Inr st"
    by (simp add: run_def b t loop)
  with k ok show ?thesis by (simp add: keys2)
qed

lemma switch_count:
  "ft \<in> set (dict_keys EMISSION_FACTORS) \<Longrightarrow>
   length (filter (\<lambda>f. f \<noteq> ft) (dict_keys EMISSION_FACTORS)) = length EMISSION_FACTORS - 1
   \<and> length EMISSION_FACTORS = 5"
proof -
  assume "ft \<in> set (dict_keys EMISSION_FACTORS)"
  then have "length (filter (\<lambda>f. f \<noteq> ft) (dict_keys EMISSION_FACTORS)) = 4"
    by (auto simp: emission_factor_keys)
  moreover have "length EMISSION_FACTORS = 5" by (simp add: EMISSION_FACTORS_def)
  ultimately show ?thesis by simp
qed

lemma switch_labels_distinct:
  "distinct (''Baseline'' # ''Tech Upgrade''
      # map (\<lambda>f. ''Switch to '' @ f) (filter (\<lambda>f. f \<noteq> ft) (dict_keys EMISSION_FACTORS)))"
proof -
  have "distinct (filter (\<lambda>f. f \<noteq> ft) (dict_keys EMISSION_FACTORS))"
    by (simp add: emission_factor_keys)
  then have "distinct (map (\<lambda>f. ''Switch to '' @ f)
                 (filter (\<lambda>f. f \<noteq> ft) (dict_keys EMISSION_FACTORS)))"
    by (simp add: distinct_map inj_on_def)
  then show ?thesis by auto
qed

lemma scenario_ok_lists:
  assumes "scenario_ok data"
  shows "\<exists>es cs. data = [(''emissions'', es), (''costs'', cs)]
           \<and> length es = YEARS \<and> length cs = YEARS"
proof -
  from assms have k: "map fst data = [''emissions'', ''costs'']"
    and l: "list_all (\<lambda>xs. length xs = YEARS) (map snd data)"
    by (simp_all add: scenario_ok_def dict_keys_def)
  from k obtain a b where ab: "data = [a, b]"
    by (cases data; cases "tl data"; cases "tl (tl data)") auto
  with k have a: "a = (''emissions'', snd a)" and b: "b = (''costs'', snd b)"
    by (simp_all add: prod_eq_iff)
  from ab l have "length (snd a) = YEARS" "length (snd b) = YEARS" by simp_all
  moreover from ab a b have "data = [(''emissions'', snd a), (''costs'', snd b)]" by simp
  ultimately show ?thesis by blast
qed

lemma run_unknown_fuel:
  assumes "fuel_type vessel \<notin> set (dict_keys EMISSION_FACTORS)"
  shows "run vessel tax_rate opex capex efficiency_gain = Inl (KeyError (fuel_type vessel))"
  using dict_getitem_not_in_keys [OF assms]
  by (simp add: run_def baseline_scenario_def baseline_series_def py_range_YEARS
      baseline_body_def calculate_emissions_def Let_def)

text \<open>
  Claim C7.  For a vessel whose fuel type is in the table, the run returns, and its
  \<open>scenarios\<close> dict has the keys Baseline, Tech Upgrade and one \<open>Switch to f\<close> for each fuel
  \<open>f\<close> of the table other than the vessel's, in table order and all distinct: 1 + 1 +
  (number of fuels - 1) entries, which is 6 for the table of five.  Every entry holds an
  emissions list and a costs list of length \<open>YEARS\<close>, and \<open>YEARS\<close> is 10.
\<close>

theorem run_scenario_set:
  assumes "fuel_type vessel \<in> set (dict_keys EMISSION_FACTORS)"
  shows "\<exists>st. run vessel tax_rate opex capex efficiency_gain = Inr st
     \<and> dict_keys (scenarios st) = ''Baseline'' # ''Tech Upgrade''
          # map (\<lambda>f. ''Switch to '' @ f)
              (filter (\<lambda>f. f \<noteq> fuel_type vessel) (dict_keys EMISSION_FACTORS))
     \<and> distinct (dict_keys (scenarios st))
     \<and> length (scenarios st) = 1 + 1 + (length EMISSION_FACTORS - 1)
     \<and> length (scenarios st) = 6
     \<and> (\<forall>(label, data)\<in>set (scenarios st).
          \<exists>es cs. data = [(''emissions'', es), (''costs'', cs)]
            \<and> length es = YEARS \<and> length cs = YEARS)
     \<and> YEARS = 10"
proof -
  from run_shape [OF assms, of tax_rate opex capex efficiency_gain] obtain st
    where r: "run vessel tax_rate opex capex efficiency_gain = Inr st"
      and k: "dict_keys (scenarios st) = ''Baseline'' # ''Tech Upgrade''
                # map (\<lambda>f. ''Switch to '' @ f)
                    (filter (\<lambda>f. f \<noteq> fuel_type vessel) (dict_keys EMISSION_FACTORS))"
      and ok: "list_all scenario_ok (map snd (scenarios st))"
    by blast
  have d: "distinct (dict_keys (scenarios st))"
    unfolding k by (rule switch_labels_distinct)
  have "length (dict_keys (scenarios st)) = 1 + 1 + (length EMISSION_FACTORS - 1)"
    unfolding k using switch_count [OF assms] by simp
  then have n: "length (scenarios st) = 1 + 1 + (length EMISSION_FACTORS - 1)"
    by (simp add: dict_keys_def)
  with switch_count [OF assms] have six: "length (scenarios st) = 6" by simp
  have each: "\<forall>(label, data)\<in>set (scenarios st).
          \<exists>es cs. data = [(''emissions'', es), (''costs'', cs)]
            \<and> length es = YEARS \<and> length cs = YEARS"
  proof (clarify)
    fix label data assume "(label, data) \<in> set (scenarios st)"
    with ok have "scenario_ok data" by (force simp: list_all_iff)
    then show "\<exists>es cs. data = [(''emissions'', es), (''costs'', cs)]
            \<and> length es = YEARS \<and> length cs = YEARS"
      by (rule scenario_ok_lists)
  qed
  have "YEARS = 10" by (simp add: YEARS_def)
  with r k d n six each show ?thesis by blast
qed

theorem run_scenario_set_witness:
  "\<exists>st. run \<lparr>dwt = 50000, fuel_type = ''VLSFO'', annual_fuel_consumption = 10000\<rparr>
           100 20000 500000 0.1 = Inr st
     \<and> dict_keys (scenarios st) =
         [''Baseline'', ''Tech Upgrade'', ''Switch to MGO'', ''Switch to LNG'',
          ''Switch to Methanol'', ''Switch to Ammonia'']
     \<and> length (scenarios st) = 6"
proof -
  let ?v = "\<lparr>dwt = 50000, fuel_type = ''VLSFO'', annual_fuel_consumption = 10000\<rparr>"
  have h: "fuel_type ?v \<in> set (dict_keys EMISSION_FACTORS)"
    by (simp add: emission_factor_keys)
  from run_scenario_set [OF h, of 100 20000 500000 "0.1"] obtain st
    where "run ?v 100 20000 500000 0.1 = Inr st"
      and "dict_keys (scenarios st) = ''Baseline'' # ''Tech Upgrade''
             # map (\<lambda>f. ''Switch to '' @ f)
                 (filter (\<lambda>f. f \<noteq> fuel_type ?v) (dict_keys EMISSION_FACTORS))"
      and "length (scenarios st) = 6"
    by blast
  then show ?thesis by (simp add: emission_factor_keys)
qed

section \<open>The summary table\<close>

lemma dict_lookup_in_keys:
  assumes "k \<in> set (dict_keys d)"
  shows "\<exists>v. dict_getitem d k = Inr v \<and> dict_get d k dflt = v \<and> v \<in> set (map snd d)"
proof -
  from assms have "k \<in> dom (map_of d)" by (simp add: dict_keys_def dom_map_of_conv_image_fst)
  then obtain v where v: "map_of d k = Some v" by blast
  then have "(k, v) \<in> set d" by (rule map_of_SomeD)
  then have "v \<in> set (map snd d)" by force
  with v show ?thesis by (simp add: dict_getitem_def dict_get_def)
qed

lemma dict_get_default: "k \<notin> set (dict_keys d) \<Longrightarrow> dict_get d k dflt = dflt"
proof -
  assume "k \<notin> set (dict_keys d)"
  then have "map_of d k = None" by (simp add: dict_keys_def map_of_eq_None_iff)
  then show ?thesis by (simp add: dict_get_def)
qed

lemma npv_column_loop:
  "set ks \<subseteq> set (dict_keys d) \<Longrightarrow>
   for_each (\<lambda>k col. case dict_getitem d k of Inl err \<Rightarrow> Inl err | Inr v \<Rightarrow> Inr (col @ [v]))
     ks acc = Inr (acc @ map (\<lambda>k. dict_get d k dflt) ks)"
proof (induction ks arbitrary: acc)
  case Nil
  show ?case by simp
next
  case (Cons k ks)
  then have "k \<in> set (dict_keys d)" and rest: "set ks \<subseteq> set (dict_keys d)" by simp_all
  from dict_lookup_in_keys [OF this(1), of dflt] obtain v
    where "dict_getitem d k = Inr v" "dict_get d k dflt = v" by blast
  with Cons.IH [OF rest] show ?case by simp
qed

lemma make_table_closed:
  "make_table st =
     Inr \<lparr>scenario_column = dict_keys (npv_summary st),
          npv_column = map (\<lambda>k. dict_get (npv_summary st) k NaN) (dict_keys (npv_summary st)),
          payback_column = map (\<lambda>k. dict_get (payback_summary st) k (PyStr ''-''))
                             (dict_keys (npv_summary st))\<rparr>"
  using npv_column_loop [OF subset_refl, of "npv_summary st" "[]" NaN]
  by (simp add: make_table_def)

lemma summary_shape:
  assumes "fuel_type vessel \<in> set (dict_keys EMISSION_FACTORS)"
  shows "\<exists>st tbl. run vessel tax_rate opex capex efficiency_gain = Inr st
     \<and> script_summary vessel tax_rate opex capex efficiency_gain = Inr tbl
     \<and> scenario_column tbl = dict_keys (scenarios st)
     \<and> length (scenario_column tbl) = 6
     \<and> length (npv_column tbl) = length (scenario_column tbl)
     \<and> length (payback_column tbl) = length (scenario_column tbl)
     \<and> (\<forall>i<length (scenario_column tbl).
          dict_getitem (npv_summary st) (scenario_column tbl ! i) = Inr (npv_column tbl ! i))
     \<and> scenario_column tbl ! 0 = ''Baseline''
     \<and> ''Baseline'' \<notin> set (dict_keys (payback_summary st))
     \<and> payback_column tbl ! 0 = PyStr ''-''
     \<and> (\<forall>i. 0 < i \<and> i < length (scenario_column tbl) \<longrightarrow>
          dict_getitem (payback_summary st) (scenario_column tbl ! i)
            = Inr (payback_column tbl ! i)
          \<and> payback_ok (payback_column tbl ! i))"
proof -
  from run_shape [OF assms, of tax_rate opex capex efficiency_gain] obtain st
    where r: "run vessel tax_rate opex capex efficiency_gain = Inr st"
      and k: "dict_keys (scenarios st) = ''Baseline'' # ''Tech Upgrade''
                # map (\<lambda>f. ''Switch to '' @ f)
                    (filter (\<lambda>f. f \<noteq> fuel_type vessel) (dict_keys EMISSION_FACTORS))"
      and kn: "dict_keys (npv_summary st) = dict_keys (scenarios st)"
      and kp: "dict_keys (payback_summary st) = tl (dict_keys (scenarios st))"
      and ok: "list_all payback_ok (map snd (payback_summary st))"
    by blast
  let ?K = "dict_keys (scenarios st)"
  let ?tbl = "\<lparr>scenario_column = ?K,
          npv_column = map (\<lambda>k. dict_get (npv_summary st) k NaN) ?K,
          payback_column = map (\<lambda>k. dict_get (payback_summary st) k (PyStr ''-'')) ?K\<rparr>"
  have t: "script_summary vessel tax_rate opex capex efficiency_gain = Inr ?tbl"
    by (simp add: script_summary_def r make_table_closed kn)
  have d: "distinct ?K" unfolding k by (rule switch_labels_distinct)
  have hd: "?K ! 0 = ''Baseline''" by (simp add: k)
  have six: "length ?K = 6" unfolding k using switch_count [OF assms] by simp
  have nb: "''Baseline'' \<notin> set (dict_keys (payback_summary st))"
    using d unfolding kp k by simp
  have p0: "payback_column ?tbl ! 0 = PyStr ''-''"
    using dict_get_default [OF nb, of "PyStr ''-''"] by (simp add: k)
  have npv: "dict_getitem (npv_summary st) (?K ! i) = Inr (npv_column ?tbl ! i)"
    if "i < length ?K" for i
  proof -
    from that have "?K ! i \<in> set (dict_keys (npv_summary st))" by (simp add: kn)
    from dict_lookup_in_keys [OF this, of NaN] that show ?thesis by auto
  qed
  have pb: "dict_getitem (payback_summary st) (?K ! i) = Inr (payback_column ?tbl ! i)
            \<and> payback_ok (payback_column ?tbl ! i)"
    if "0 < i" "i < length ?K" for i
  proof -
    from that obtain j where j: "i = Suc j" by (cases i) auto
    with that have "j < length (tl ?K)" by simp
    then have "tl ?K ! j \<in> set (tl ?K)" by (rule nth_mem)
    moreover have "tl ?K ! j = ?K ! i" using j that by (simp add: nth_tl)
    ultimately have "?K ! i \<in> set (dict_keys (payback_summary st))" by (simp add: kp)
    from dict_lookup_in_keys [OF this, of "PyStr ''-''"] obtain v
      where v: "dict_getitem (payback_summary st) (?K ! i) = Inr v"
        "dict_get (payback_summary st) (?K ! i) (PyStr ''-'') = v"
        "v \<in> set (map snd (payback_summary st))" by blast
    from v(3) ok have "payback_ok v" by (auto simp: list_all_iff)
    with v that show ?thesis by simp
  qed
  from r t hd six nb p0 npv pb show ?thesis
    by (intro exI [of _ st] exI [of _ ?tbl]) simp
qed

text \<open>
  Claim C8, as stated for every scenario including Baseline, fails on the Baseline row: the
  script stores no payback period for Baseline, and the table shows the placeholder \<open>-\<close>
  there.  With the default inputs:
\<close>

theorem baseline_payback_placeholder_counterexample:
  "map_sum id (\<lambda>tbl. (scenario_column tbl ! 0, payback_column tbl ! 0))
     (script_summary \<lparr>dwt = 50000, fuel_type = ''VLSFO'', annual_fuel_consumption = 10000\<rparr>
        100 20000 500000 0.1)
   = Inr (''Baseline'', PyStr ''-'')"
proof -
  let ?v = "\<lparr>dwt = 50000, fuel_type = ''VLSFO'', annual_fuel_consumption = 10000\<rparr>"
  have h: "fuel_type ?v \<in> set (dict_keys EMISSION_FACTORS)"
    by (simp add: emission_factor_keys)
  from summary_shape [OF h, of 100 20000 500000 "0.1"] obtain tbl
    where "script_summary ?v 100 20000 500000 0.1 = Inr tbl"
      and "scenario_column tbl ! 0 = ''Baseline''"
      and "payback_column tbl ! 0 = PyStr ''-''"
    by blast
  then show ?thesis by simp
qed

text \<open>
  Claim C8, amended.  For a vessel whose fuel type is in the table, the run and the table
  succeed, and the table has one row per scenario, six in all, each with the NPV stored for
  its scenario.  Every row but the first has the payback period stored for its scenario,
  which is an integer year count from 1 to 10 or the string \<open>> 10\<close>.  The first row is
  Baseline: no payback period is stored for it, and its payback cell is the placeholder
  \<open>-\<close>.
\<close>

theorem summary_metrics_per_scenario:
  assumes "fuel_type vessel \<in> set (dict_keys EMISSION_FACTORS)"
  shows "\<exists>st tbl. run vessel tax_rate opex capex efficiency_gain = Inr st
     \<and> script_summary vessel tax_rate opex capex efficiency_gain = Inr tbl
     \<and> scenario_column tbl = dict_keys (scenarios st)
     \<and> length (scenario_column tbl) = 6
     \<and> length (npv_column tbl) = length (scenario_column tbl)
     \<and> length (payback_column tbl) = length (scenario_column tbl)
     \<and> (\<forall>i<length (scenario_column tbl).
          dict_getitem (npv_summary st) (scenario_column tbl ! i) = Inr (npv_column tbl ! i))
     \<and> scenario_column tbl ! 0 = ''Baseline''
     \<and> ''Baseline'' \<notin> set (dict_keys (payback_summary st))
     \<and> payback_column tbl ! 0 = PyStr ''-''
     \<and> (\<forall>i. 0 < i \<and> i < length (scenario_column tbl) \<longrightarrow>
          dict_getitem (payback_summary st) (scenario_column tbl ! i)
            = Inr (payback_column tbl ! i)
          \<and> (payback_column tbl ! i = PyStr ''> 10''
             \<or> (\<exists>n. payback_column tbl ! i = PyInt n \<and> 1 \<le> n \<and> n \<le> 10)))"
proof -
  have shape: "p = PyStr ''> 10'' \<or> (\<exists>n. p = PyInt n \<and> 1 \<le> n \<and> n \<le> 10)"
    if "payback_ok p" for p
    using that by (cases p) (simp_all add: payback_ok_def YEARS_def)
  from summary_shape [OF assms, of tax_rate opex capex efficiency_gain] obtain st tbl
    where a: "run vessel tax_rate opex capex efficiency_gain = Inr st"
      "script_summary vessel tax_rate opex capex efficiency_gain = Inr tbl"
      "scenario_column tbl = dict_keys (scenarios st)"
      "length (scenario_column tbl) = 6"
      "length (npv_column tbl) = length (scenario_column tbl)"
      "length (payback_column tbl) = length (scenario_column tbl)"
      "\<forall>i<length (scenario_column tbl).
          dict_getitem (npv_summary st) (scenario_column tbl ! i) = Inr (npv_column tbl ! i)"
      "scenario_column tbl ! 0 = ''Baseline''"
      "''Baseline'' \<notin> set (dict_keys (payback_summary st))"
      "payback_column tbl ! 0 = PyStr ''-''"
      and b: "\<forall>i. 0 < i \<and> i < length (scenario_column tbl) \<longrightarrow>
          dict_getitem (payback_summary st) (scenario_column tbl ! i)
            = Inr (payback_column tbl ! i)
          \<and> payback_ok (payback_column tbl ! i)"
    by blast
  from b shape have "\<forall>i. 0 < i \<and> i < length (scenario_column tbl) \<longrightarrow>
          dict_getitem (payback_summary st) (scenario_column tbl ! i)
            = Inr (payback_column tbl ! i)
          \<and> (payback_column tbl ! i = PyStr ''> 10''
             \<or> (\<exists>n. payback_column tbl ! i = PyInt n \<and> 1 \<le> n \<and> n \<le> 10))"
    by blast
  with a show ?thesis by blast
qed

theorem summary_metrics_per_scenario_witness:
  "\<exists>st tbl. run \<lparr>dwt = 50000, fuel_type = ''LNG'', annual_fuel_consumption = 10000\<rparr>
        100 20000 500000 0.1 = Inr st
     \<and> script_summary \<lparr>dwt = 50000, fuel_type = ''LNG'', annual_fuel_consumption = 10000\<rparr>
        100 20000 500000 0.1 = Inr tbl
     \<and> dict_getitem (npv_summary st) (scenario_column tbl ! 0) = Inr (npv_column tbl ! 0)
     \<and> payback_column tbl ! 0 = PyStr ''-''
     \<and> dict_getitem (payback_summary st) (scenario_column tbl ! 5)
           = Inr (payback_column tbl ! 5)
     \<and> (payback_column tbl ! 5 = PyStr ''> 10''
        \<or> (\<exists>n. payback_column tbl ! 5 = PyInt n \<and> 1 \<le> n \<and> n \<le> 10))"
proof -
  let ?v = "\<lparr>dwt = 50000, fuel_type = ''LNG'', annual_fuel_consumption = 10000\<rparr>"
  have h: "fuel_type ?v \<in> set (dict_keys EMISSION_FACTORS)"
    by (simp add: emission_factor_keys)
  from summary_metrics_per_scenario [OF h, of 100 20000 500000 "0.1"] obtain st tbl
    where a: "run ?v 100 20000 500000 0.1 = Inr st"
      "script_summary ?v 100 20000 500000 0.1 = Inr tbl"
      "length (scenario_column tbl) = 6"
      "payback_column tbl ! 0 = PyStr ''-''"
      and n: "\<forall>i<length (scenario_column tbl).
          dict_getitem (npv_summary st) (scenario_column tbl ! i) = Inr (npv_column tbl ! i)"
      and b: "\<forall>i. 0 < i \<and> i < length (scenario_column tbl) \<longrightarrow>
          dict_getitem (payback_summary st) (scenario_column tbl ! i)
            = Inr (payback_column tbl ! i)
          \<and> (payback_column tbl ! i = PyStr ''> 10''
             \<or> (\<exists>n. payback_column tbl ! i = PyInt n \<and> 1 \<le> n \<and> n \<le> 10))"
    by blast
  have i0: "0 < length (scenario_column tbl)" and i5: "(0::nat) < 5 \<and> 5 < length (scenario_column tbl)"
    by (simp_all add: a(3))
  from n i0 have "dict_getitem (npv_summary st) (scenario_column tbl ! 0) = Inr (npv_column tbl ! 0)"
    by blast
  moreover from b i5 have "dict_getitem (payback_summary st) (scenario_column tbl ! 5)
            = Inr (payback_column tbl ! 5)
          \<and> (payback_column tbl ! 5 = PyStr ''> 10''
             \<or> (\<exists>n. payback_column tbl ! 5 = PyInt n \<and> 1 \<le> n \<and> n \<le> 10))"
    by blast
  ultimately show ?thesis using a(1,2,4) by blast
qed

end
